theory Spec2Isabelle
  imports Main
begin

section \<open>Strings\<close>

text \<open>
  A Python \<open>str\<close> is a sequence of Unicode code points: \<open>len\<close>, iteration and
  comparison all work on code points. A string is therefore a list of code points, each a
  natural number. \<open>str\<close> embeds an ASCII literal.
\<close>

type_synonym codepoint = nat
type_synonym pystr = "codepoint list"

definition str :: "string \<Rightarrow> pystr" where
  "str s = map of_char s"

section \<open>The tables (models.py, and the same classes of app.py)\<close>

text \<open>
  One record per mapped class, one list of rows per table, in the order of insertion,
  which is the order a query without ORDER BY scans them in.
\<close>

record user =
  user_id :: int
  username :: pystr
  hashed_password :: pystr

record month =
  month_id :: int
  month_bn :: pystr
  month_en :: pystr

record event =
  event_id :: int
  event_month_id :: int
  day :: pystr

record event_detail =
  detail_id :: int
  detail_event_id :: int
  detail :: pystr

record store =
  users :: "user list"
  months :: "month list"
  events :: "event list"
  event_details :: "event_detail list"

text \<open>\<open>Query.first()\<close>: the first row of the result, or \<open>None\<close>.\<close>

fun first :: "'a list \<Rightarrow> 'a option" where
  "first [] = None"
| "first (x # xs) = Some x"

section \<open>Lookup of the events of a day (crud.py, and the same functions of app.py)\<close>

text \<open>
  The dictionary of \<open>to_bangla_digits\<close>: the keys are the ten characters \<open>0\<close> to
  \<open>9\<close> (U+0030 to U+0039), the values the Bangla digits U+09E6 to U+09EF, as the
  source file spells them.
\<close>

definition eng_to_bn :: "(codepoint \<times> codepoint) list" where
  "eng_to_bn =
     [(48, 2534), (49, 2535), (50, 2536), (51, 2537), (52, 2538),
      (53, 2539), (54, 2540), (55, 2541), (56, 2542), (57, 2543)]"

text \<open>\<open>eng_to_bn.get(char, char)\<close>\<close>

definition get_or_self :: "codepoint \<Rightarrow> codepoint" where
  "get_or_self c = (case map_of eng_to_bn c of Some g \<Rightarrow> g | None \<Rightarrow> c)"

text \<open>\<open>"".join(eng_to_bn.get(char, char) for char in number_str)\<close>\<close>

definition to_bangla_digits :: "pystr \<Rightarrow> pystr" where
  "to_bangla_digits number_str = concat (map (\<lambda>c. [get_or_self c]) number_str)"

text \<open>
  \<open>db.query(Event).filter(Event.month_id == month_id, Event.day == day).all()\<close>
\<close>

definition events_on :: "store \<Rightarrow> int \<Rightarrow> pystr \<Rightarrow> event list" where
  "events_on db mid d = filter (\<lambda>e. event_month_id e = mid \<and> day e = d) (events db)"

definition get_events_by_date :: "store \<Rightarrow> int \<Rightarrow> pystr \<Rightarrow> event list" where
  "get_events_by_date db mid d =
     (let evs = events_on db mid d in
      if evs \<noteq> [] then evs
      else
        let day_bn = to_bangla_digits d in
        if day_bn \<noteq> d then events_on db mid day_bn else [])"

text \<open>The vocabulary of the statements: the Western digits \<open>0\<close> to \<open>9\<close>.\<close>

definition western_digit :: "codepoint \<Rightarrow> bool" where
  "western_digit c = (48 \<le> c \<and> c \<le> 57)"

section \<open>Writes (crud.py, and the same functions of app.py)\<close>

text \<open>
  The schemas of the request bodies: \<open>EventCreate\<close>, \<open>MonthBase\<close> and
  \<open>MonthCreate\<close>.
\<close>

record event_create =
  ec_day :: pystr
  ec_details :: "pystr list"

record month_base =
  mb_month_bn :: pystr
  mb_month_en :: pystr

record month_create =
  mc_month_bn :: pystr
  mc_month_en :: pystr
  mc_events :: "event_create list"

text \<open>
  The session is made with \<open>autoflush=False\<close>: \<open>db.add\<close> only queues a row, and
  \<open>db.commit()\<close> inserts what is queued and makes it visible, or raises and leaves the
  store as the last successful commit left it (the request's session is closed without
  another commit). No function of the query layer catches the exception. Whether a commit
  fails is not decided by the program: \<open>flt n\<close> says that the \<open>n\<close>-th call of
  \<open>db.commit()\<close> within one operation raises, counting from 0. Reads do not fail.

  An operation either raises, leaving a store, or returns a value and a store.
\<close>

type_synonym faults = "nat \<Rightarrow> bool"

datatype 'a outcome = Raised store | Returned 'a store

definition no_faults :: faults where
  "no_faults n = False"

definition fail_at :: "nat \<Rightarrow> faults" where
  "fail_at k n = (n = k)"

text \<open>
  The key of a new row is given by the store: one more than the largest key of the table,
  1 in an empty table (the rule of the default SQLite backend for an integer primary key).
  The columns \<open>month_id\<close> and \<open>event_id\<close> are declared as foreign keys, which that
  backend records and does not enforce, and no function looks the parent up before it
  inserts: a row can name a parent that does not exist.
\<close>

definition next_id :: "int list \<Rightarrow> int" where
  "next_id ids = fold max ids 0 + 1"

definition new_month :: "store \<Rightarrow> pystr \<Rightarrow> pystr \<Rightarrow> month" where
  "new_month db bn en =
     \<lparr>month_id = next_id (map month_id (months db)), month_bn = bn, month_en = en\<rparr>"

definition new_event :: "store \<Rightarrow> int \<Rightarrow> pystr \<Rightarrow> event" where
  "new_event db mid d =
     \<lparr>event_id = next_id (map event_id (events db)), event_month_id = mid, day = d\<rparr>"

text \<open>
  \<open>for detail in details: db.add(EventDetail(detail=detail, event_id=...))\<close>, as the
  following commit inserts the queued rows: in order, each with the next key.
\<close>

definition new_detail :: "event_detail list \<Rightarrow> int \<Rightarrow> pystr \<Rightarrow> event_detail" where
  "new_detail rows eid t =
     \<lparr>detail_id = next_id (map detail_id rows), detail_event_id = eid, detail = t\<rparr>"

fun insert_details :: "int \<Rightarrow> pystr list \<Rightarrow> event_detail list \<Rightarrow> event_detail list" where
  "insert_details eid [] rows = rows"
| "insert_details eid (t # ts) rows = insert_details eid ts (rows @ [new_detail rows eid t])"

text \<open>
  The loop of \<open>create_month\<close> over \<open>month.events\<close>: two commits for each event, the
  first for the event's row, the second for its details. \<open>n\<close> is the number of commits
  the operation has made so far.
\<close>

fun create_events :: "faults \<Rightarrow> nat \<Rightarrow> int \<Rightarrow> event_create list \<Rightarrow> store \<Rightarrow> unit outcome" where
  "create_events flt n mid [] db = Returned () db"
| "create_events flt n mid (event_data # rest) db =
     (if flt n then Raised db
      else
        let db_event = new_event db mid (ec_day event_data);
            db1 = db\<lparr>events := events db @ [db_event]\<rparr>
        in
          if flt (n + 1) then Raised db1
          else
            create_events flt (n + 2) mid rest
              (db1\<lparr>event_details :=
                    insert_details (event_id db_event) (ec_details event_data)
                      (event_details db1)\<rparr>))"

definition create_month :: "faults \<Rightarrow> store \<Rightarrow> month_create \<Rightarrow> month outcome" where
  "create_month flt db m =
     (if flt 0 then Raised db
      else
        let db_month = new_month db (mc_month_bn m) (mc_month_en m);
            db1 = db\<lparr>months := months db @ [db_month]\<rparr>
        in
          case create_events flt 1 (month_id db_month) (mc_events m) db1 of
            Raised db' \<Rightarrow> Raised db'
          | Returned u db' \<Rightarrow> Returned db_month db')"

definition get_month :: "store \<Rightarrow> int \<Rightarrow> month option" where
  "get_month db mid = first (filter (\<lambda>r. month_id r = mid) (months db))"

definition get_event :: "store \<Rightarrow> int \<Rightarrow> event option" where
  "get_event db eid = first (filter (\<lambda>e. event_id e = eid) (events db))"

definition get_detail :: "store \<Rightarrow> int \<Rightarrow> event_detail option" where
  "get_detail db did = first (filter (\<lambda>d. detail_id d = did) (event_details db))"

text \<open>
  \<open>db.delete\<close> of an object whose relationship is declared with
  \<open>cascade="all, delete-orphan"\<close>: the children are loaded through the relationship (the
  rows whose foreign key is the parent's key) and deleted too, each row by its primary key.
\<close>

definition delete_event_rows :: "store \<Rightarrow> event list \<Rightarrow> store" where
  "delete_event_rows db evs =
     (let eids = map event_id evs;
          dids = map detail_id (filter (\<lambda>d. detail_event_id d \<in> set eids) (event_details db))
      in db\<lparr>events := filter (\<lambda>e. event_id e \<notin> set eids) (events db),
            event_details := filter (\<lambda>d. detail_id d \<notin> set dids) (event_details db)\<rparr>)"

definition delete_month_rows :: "store \<Rightarrow> month \<Rightarrow> store" where
  "delete_month_rows db m =
     (let db1 = delete_event_rows db (filter (\<lambda>e. event_month_id e = month_id m) (events db))
      in db1\<lparr>months := filter (\<lambda>r. month_id r \<noteq> month_id m) (months db1)\<rparr>)"

definition delete_month :: "faults \<Rightarrow> store \<Rightarrow> int \<Rightarrow> month option outcome" where
  "delete_month flt db mid =
     (case get_month db mid of
        None \<Rightarrow> Returned None db
      | Some db_month \<Rightarrow>
          if flt 0 then Raised db else Returned (Some db_month) (delete_month_rows db db_month))"

definition update_month :: "faults \<Rightarrow> store \<Rightarrow> int \<Rightarrow> month_base \<Rightarrow> month option outcome" where
  "update_month flt db mid m =
     (case get_month db mid of
        None \<Rightarrow> Returned None db
      | Some db_month \<Rightarrow>
          if flt 0 then Raised db
          else
            Returned (Some (db_month\<lparr>month_bn := mb_month_bn m, month_en := mb_month_en m\<rparr>))
              (db\<lparr>months :=
                    map (\<lambda>r. if month_id r = mid
                              then r\<lparr>month_bn := mb_month_bn m, month_en := mb_month_en m\<rparr>
                              else r)
                      (months db)\<rparr>))"

definition create_event :: "faults \<Rightarrow> store \<Rightarrow> int \<Rightarrow> event_create \<Rightarrow> event outcome" where
  "create_event flt db mid ev =
     (if flt 0 then Raised db
      else
        let db_event = new_event db mid (ec_day ev);
            db1 = db\<lparr>events := events db @ [db_event]\<rparr>
        in
          if flt 1 then Raised db1
          else
            Returned db_event
              (db1\<lparr>event_details :=
                    insert_details (event_id db_event) (ec_details ev) (event_details db1)\<rparr>))"

definition delete_event :: "faults \<Rightarrow> store \<Rightarrow> int \<Rightarrow> event option outcome" where
  "delete_event flt db eid =
     (case get_event db eid of
        None \<Rightarrow> Returned None db
      | Some db_event \<Rightarrow>
          if flt 0 then Raised db
          else Returned (Some db_event) (delete_event_rows db [db_event]))"

definition add_detail :: "faults \<Rightarrow> store \<Rightarrow> int \<Rightarrow> pystr \<Rightarrow> event_detail outcome" where
  "add_detail flt db eid t =
     (if flt 0 then Raised db
      else
        let db_detail = new_detail (event_details db) eid t
        in Returned db_detail (db\<lparr>event_details := event_details db @ [db_detail]\<rparr>))"

definition delete_detail :: "faults \<Rightarrow> store \<Rightarrow> int \<Rightarrow> event_detail option outcome" where
  "delete_detail flt db did =
     (case get_detail db did of
        None \<Rightarrow> Returned None db
      | Some db_detail \<Rightarrow>
          if flt 0 then Raised db
          else
            Returned (Some db_detail)
              (db\<lparr>event_details :=
                    filter (\<lambda>d. detail_id d \<noteq> detail_id db_detail) (event_details db)\<rparr>))"

text \<open>
  The vocabulary of the statements about \<open>create_month\<close>. \<open>store_of\<close> is the store
  an operation leaves, however it ends. \<open>committed_prefix k evs\<close> is the part of the
  events \<open>evs\<close> that the first \<open>k\<close> commits of the loop have written: two commits
  for each whole event, and after an odd number of commits one more event without its
  details. \<open>tree_visible db db' mid evs\<close> says that \<open>db'\<close> holds, after the rows of
  \<open>db\<close>, one new event of the month \<open>mid\<close> for each of \<open>evs\<close>, in order and
  under new keys, and the details of each under the key of its event.
\<close>

fun store_of :: "'a outcome \<Rightarrow> store" where
  "store_of (Raised db) = db"
| "store_of (Returned r db) = db"

fun committed_prefix :: "nat \<Rightarrow> event_create list \<Rightarrow> event_create list" where
  "committed_prefix 0 evs = []"
| "committed_prefix k [] = []"
| "committed_prefix (Suc 0) (ev # evs) = [ev\<lparr>ec_details := []\<rparr>]"
| "committed_prefix (Suc (Suc k)) (ev # evs) = ev # committed_prefix k evs"

definition tree_visible :: "store \<Rightarrow> store \<Rightarrow> int \<Rightarrow> event_create list \<Rightarrow> bool" where
  "tree_visible db db' mid evs =
     (\<exists>es ds. events db' = events db @ es
        \<and> event_details db' = event_details db @ ds
        \<and> map day es = map ec_day evs
        \<and> (\<forall>e \<in> set es. event_month_id e = mid)
        \<and> distinct (map event_id es)
        \<and> (\<forall>e \<in> set es. event_id e \<notin> event_id ` set (events db))
        \<and> map (\<lambda>d. (detail_event_id d, detail d)) ds =
            concat (map (\<lambda>(e, ev). map (Pair (event_id e)) (ec_details ev)) (zip es evs)))"

text \<open>
  The invariant of the data model: the month of every event and the event of every detail
  exist.
\<close>

definition referential :: "store \<Rightarrow> bool" where
  "referential db =
     ((\<forall>e \<in> set (events db). event_month_id e \<in> month_id ` set (months db))
      \<and> (\<forall>d \<in> set (event_details db). detail_event_id d \<in> event_id ` set (events db)))"

section \<open>Search (crud.py, routers/public.py, and the same functions of app.py)\<close>

text \<open>
  \<open>EventDetail.detail.ilike(f"%{query}%")\<close> hands the pattern to the store's LIKE
  operator, which is not code of the repository. \<open>like_match\<close> is that operator as SQL
  defines it, with no escape character (none is passed, and the default backend has none):
  \<open>%\<close> (U+0025) stands for any run of characters, also the empty one, \<open>_\<close> (U+005F)
  for any one character, every other character for itself. \<open>ilike\<close> compares without
  regard to case, which the default backend does for the letters of ASCII, by lowering both
  sides.
\<close>

definition percent :: codepoint where
  "percent = 37"

definition underscore :: codepoint where
  "underscore = 95"

fun like_match :: "pystr \<Rightarrow> pystr \<Rightarrow> bool" where
  "like_match [] s = (s = [])"
| "like_match (p # ps) [] = (p = percent \<and> like_match ps [])"
| "like_match (p # ps) (c # s) =
     (if p = percent then like_match ps (c # s) \<or> like_match (p # ps) s
      else (p = underscore \<or> p = c) \<and> like_match ps s)"

definition lower_char :: "codepoint \<Rightarrow> codepoint" where
  "lower_char c = (if 65 \<le> c \<and> c \<le> 90 then c + 32 else c)"

definition lower :: "pystr \<Rightarrow> pystr" where
  "lower s = map lower_char s"

definition ilike :: "pystr \<Rightarrow> pystr \<Rightarrow> bool" where
  "ilike s pattern = like_match (lower pattern) (lower s)"

definition search_details :: "store \<Rightarrow> pystr \<Rightarrow> event_detail list" where
  "search_details db query =
     filter (\<lambda>d. ilike (detail d) ([percent] @ query @ [percent])) (event_details db)"

text \<open>
  The route: \<open>q: str = Query(..., min_length=3)\<close> makes the parameter required and at
  least three characters long; a request that fails the validation is answered with status
  422 and the function is not called.
\<close>

datatype request_error = RequestValidationError

definition search_events :: "store \<Rightarrow> pystr option \<Rightarrow> request_error + event_detail list" where
  "search_events db q =
     (case q of
        None \<Rightarrow> Inl RequestValidationError
      | Some query \<Rightarrow>
          if length query < 3 then Inl RequestValidationError
          else Inr (search_details db query))"

text \<open>The vocabulary of the statements: a string without the two wildcards.\<close>

definition wildcard_free :: "pystr \<Rightarrow> bool" where
  "wildcard_free q = (percent \<notin> set q \<and> underscore \<notin> set q)"

text \<open>
  The vocabulary of the statements: the folding of case beyond ASCII, for the capital
  letters of Latin-1 (U+00C0 to U+00DE without the sign U+00D7), which \<open>lower_char\<close>
  leaves alone.
\<close>

definition latin1_lower :: "codepoint \<Rightarrow> codepoint" where
  "latin1_lower c =
     (if (65 \<le> c \<and> c \<le> 90) \<or> (192 \<le> c \<and> c \<le> 222 \<and> c \<noteq> 215) then c + 32 else c)"

section \<open>Tokens and callers (app.py)\<close>

text \<open>
  Time is a \<open>datetime\<close>, counted in microseconds; a \<open>timedelta\<close> is a number of
  microseconds too.
\<close>

type_synonym datetime = int
type_synonym timedelta = int

definition minutes :: "int \<Rightarrow> timedelta" where
  "minutes n = n * 60000000"

definition ACCESS_TOKEN_EXPIRE_MINUTES :: int where
  "ACCESS_TOKEN_EXPIRE_MINUTES = 30"

text \<open>
  The claims of a token: the dictionary that \<open>jwt.encode\<close> is given and
  \<open>jwt.decode\<close> returns, with the two keys the program uses. A subject that is present
  is a string: the library refuses any other.
\<close>

record payload =
  claim_sub :: "pystr option"
  claim_exp :: "datetime option"

text \<open>
  The exceptions of the token library: \<open>except JWTError\<close> catches all three, the
  other two being its subclasses.
\<close>

datatype jwt_error = JWTError | ExpiredSignatureError | JWTClaimsError

record http_exception =
  status_code :: nat
  exc_detail :: string
  headers :: "(string \<times> string) list"

definition credentials_exception :: http_exception where
  "credentials_exception =
     \<lparr>status_code = 401, exc_detail = ''Could not validate credentials'',
      headers = [(''WWW-Authenticate'', ''Bearer'')]\<rparr>"

text \<open>
  \<open>create_access_token\<close>. \<open>encode\<close> stands for
  \<open>jwt.encode(_, SECRET_KEY, algorithm=ALGORITHM)\<close>, \<open>now\<close> for
  \<open>datetime.utcnow()\<close>. The test \<open>if expires_delta:\<close> is Python's truth test: it fails
  for \<open>None\<close> and for a \<open>timedelta\<close> of zero.
\<close>

definition create_access_token ::
  "(payload \<Rightarrow> 't) \<Rightarrow> datetime \<Rightarrow> payload \<Rightarrow> timedelta option \<Rightarrow> 't" where
  "create_access_token encode now data expires_delta =
     (let expire =
        (case expires_delta of
           None \<Rightarrow> now + minutes 15
         | Some d \<Rightarrow> if d \<noteq> 0 then now + d else now + minutes 15)
      in encode (data\<lparr>claim_exp := Some expire\<rparr>))"

text \<open>
  \<open>get_current_user\<close>. \<open>decode\<close> stands for
  \<open>jwt.decode(_, SECRET_KEY, algorithms=[ALGORITHM])\<close> at the time of the request.
\<close>

definition get_user_by_username :: "store \<Rightarrow> pystr \<Rightarrow> user option" where
  "get_user_by_username db name = first (filter (\<lambda>u. username u = name) (users db))"

definition get_current_user ::
  "('t \<Rightarrow> jwt_error + payload) \<Rightarrow> store \<Rightarrow> 't \<Rightarrow> http_exception + user" where
  "get_current_user decode db token =
     (case decode token of
        Inl e \<Rightarrow> Inl credentials_exception
      | Inr p \<Rightarrow>
          (case claim_sub p of
             None \<Rightarrow> Inl credentials_exception
           | Some name \<Rightarrow>
               (case get_user_by_username db name of
                  None \<Rightarrow> Inl credentials_exception
                | Some u \<Rightarrow> Inr u)))"

text \<open>
  A request, as far as the program reads it: the \<open>Authorization\<close> header and the
  cookies.
\<close>

record request =
  authorization :: "pystr option"
  cookies :: "pystr \<rightharpoonup> pystr"

text \<open>\<open>s.startswith(prefix)\<close>\<close>

definition startswith :: "pystr \<Rightarrow> pystr \<Rightarrow> bool" where
  "startswith s prefix = (take (length prefix) s = prefix)"

text \<open>
  Modelled from the spec: the exception of the header's extraction, which the web
  framework raises (not in the sources). The spec: "fails with Unauthenticated (surfaced
  as 401 + WWW-Authenticate: Bearer)".
\<close>

definition not_authenticated :: http_exception where
  "not_authenticated =
     \<lparr>status_code = 401, exc_detail = ''Not authenticated'',
      headers = [(''WWW-Authenticate'', ''Bearer'')]\<rparr>"

text \<open>
  Modelled from the spec: \<open>oauth2_scheme\<close>, an object of the web framework's class
  \<open>OAuth2PasswordBearer\<close> (not in the sources). The spec: "extract token from the
  standard Authorization: Bearer <token> header; fails with Unauthenticated [...] if header
  is absent, malformed".
\<close>

definition oauth2_scheme :: "request \<Rightarrow> http_exception + pystr" where
  "oauth2_scheme req =
     (case authorization req of
        None \<Rightarrow> Inl not_authenticated
      | Some h \<Rightarrow>
          if startswith h (str ''Bearer '') then Inr (drop 7 h) else Inl not_authenticated)"

text \<open>
  The admin router: \<open>dependencies=[Depends(get_current_user)]\<close> runs the dependency
  before every one of its seven routes, and a route's function only if the dependency
  returned.
\<close>

datatype admin_call =
    Create_month month_create
  | Delete_month int
  | Update_month int month_base
  | Create_event int event_create
  | Delete_event int
  | Add_detail int pystr
  | Delete_detail int

datatype admin_reply =
    Month_reply "month option"
  | Event_reply "event option"
  | Detail_reply "event_detail option"

fun admin_handler :: "faults \<Rightarrow> store \<Rightarrow> admin_call \<Rightarrow> admin_reply outcome" where
  "admin_handler flt db (Create_month m) =
     map_outcome (\<lambda>r. Month_reply (Some r)) (create_month flt db m)"
| "admin_handler flt db (Delete_month mid) = map_outcome Month_reply (delete_month flt db mid)"
| "admin_handler flt db (Update_month mid m) =
     map_outcome Month_reply (update_month flt db mid m)"
| "admin_handler flt db (Create_event mid ev) =
     map_outcome (\<lambda>r. Event_reply (Some r)) (create_event flt db mid ev)"
| "admin_handler flt db (Delete_event eid) = map_outcome Event_reply (delete_event flt db eid)"
| "admin_handler flt db (Add_detail eid t) =
     map_outcome (\<lambda>r. Detail_reply (Some r)) (add_detail flt db eid t)"
| "admin_handler flt db (Delete_detail did) =
     map_outcome Detail_reply (delete_detail flt db did)"

definition admin_route ::
  "(pystr \<Rightarrow> jwt_error + payload) \<Rightarrow> faults \<Rightarrow> store \<Rightarrow> request \<Rightarrow> admin_call
     \<Rightarrow> http_exception + admin_reply outcome" where
  "admin_route decode flt db req call =
     (case oauth2_scheme req of
        Inl e \<Rightarrow> Inl e
      | Inr token \<Rightarrow>
          (case get_current_user decode db token of
             Inl e \<Rightarrow> Inl e
           | Inr u \<Rightarrow> Inr (admin_handler flt db call)))"




text \<open>
  The two places that issue a token. \<open>verify_password\<close> stands for the function of that
  name, which hands both strings to the password library. The forms are taken to hold both
  fields.
\<close>

record form_data =
  form_username :: pystr
  form_password :: pystr

record 't token_response =
  access_token :: 't
  token_type :: string

definition incorrect_login :: http_exception where
  "incorrect_login =
     \<lparr>status_code = 401, exc_detail = ''Incorrect username or password'',
      headers = [(''WWW-Authenticate'', ''Bearer'')]\<rparr>"

definition login_for_access_token ::
  "(pystr \<Rightarrow> pystr \<Rightarrow> bool) \<Rightarrow> (payload \<Rightarrow> 't) \<Rightarrow> datetime \<Rightarrow> store \<Rightarrow> form_data
     \<Rightarrow> http_exception + 't token_response" where
  "login_for_access_token verify_password encode now db form =
     (case get_user_by_username db (form_username form) of
        None \<Rightarrow> Inl incorrect_login
      | Some u \<Rightarrow>
          if \<not> verify_password (form_password form) (hashed_password u)
          then Inl incorrect_login
          else
            Inr \<lparr>access_token =
                   create_access_token encode now
                     \<lparr>claim_sub = Some (username u), claim_exp = None\<rparr>
                     (Some (minutes ACCESS_TOKEN_EXPIRE_MINUTES)),
                 token_type = ''bearer''\<rparr>)"

datatype login_reply = Login_page string | Redirect string pystr

definition login_submit ::
  "(pystr \<Rightarrow> pystr \<Rightarrow> bool) \<Rightarrow> (payload \<Rightarrow> pystr) \<Rightarrow> datetime \<Rightarrow> store \<Rightarrow> form_data
     \<Rightarrow> login_reply" where
  "login_submit verify_password encode now db form =
     (case get_user_by_username db (form_username form) of
        None \<Rightarrow> Login_page ''Invalid credentials''
      | Some u \<Rightarrow>
          if \<not> verify_password (form_password form) (hashed_password u)
          then Login_page ''Invalid credentials''
          else
            Redirect ''/dashboard''
              (str ''Bearer '' @
               create_access_token encode now
                 \<lparr>claim_sub = Some (username u), claim_exp = None\<rparr> None))"

text \<open>
  Modelled from the spec: the tokens of the token library (not in the sources), which the
  program makes with \<open>jwt.encode\<close> and reads with \<open>jwt.decode\<close>. The spec: "a signed,
  self-contained token encoding {subject, expiry_timestamp}, signed with a server-held
  secret". A token is taken as what it stands for: the claims and the key that signed them,
  or a string that is no token at all.
\<close>

datatype token = Signed pystr payload | Malformed pystr

text \<open>Modelled from the spec: \<open>jwt.encode\<close> with the key (not in the sources).\<close>

definition jwt_encode :: "pystr \<Rightarrow> payload \<Rightarrow> token" where
  "jwt_encode key claims = Signed key claims"

text \<open>
  Modelled from the spec: \<open>jwt.decode\<close> with the key, at a time (not in the sources).
  The spec: "verifies signature and that now < expiry_timestamp; fails with InvalidToken
  on: bad signature, malformed structure, [...] or expiry in the past".
\<close>

definition jwt_decode :: "pystr \<Rightarrow> datetime \<Rightarrow> token \<Rightarrow> jwt_error + payload" where
  "jwt_decode key now tok =
     (case tok of
        Malformed s \<Rightarrow> Inl JWTError
      | Signed k claims \<Rightarrow>
          if k \<noteq> key then Inl JWTError
          else
            (case claim_exp claims of
               None \<Rightarrow> Inr claims
             | Some e \<Rightarrow> if now < e then Inr claims else Inl ExpiredSignatureError))"

section \<open>Example data\<close>

text \<open>
  A calendar with two months. The first month has a day written \<open>5\<close> in Western digits,
  the same day written in Bangla digits (U+09EB), and a day 7 written in Bangla digits
  only (U+09ED); the second month has a day \<open>7\<close> written in Western digits only.
\<close>

definition ev_w5 :: event where
  "ev_w5 = \<lparr>event_id = 1, event_month_id = 1, day = str ''5''\<rparr>"

definition ev_b5 :: event where
  "ev_b5 = \<lparr>event_id = 2, event_month_id = 1, day = [2539]\<rparr>"

definition ev_b7 :: event where
  "ev_b7 = \<lparr>event_id = 3, event_month_id = 1, day = [2541]\<rparr>"

definition ev_w7 :: event where
  "ev_w7 = \<lparr>event_id = 4, event_month_id = 2, day = str ''7''\<rparr>"

definition days_store :: store where
  "days_store =
     \<lparr>users = [],
      months = [\<lparr>month_id = 1, month_bn = [2476], month_en = str ''Muharram''\<rparr>,
                \<lparr>month_id = 2, month_bn = [2488], month_en = str ''Safar''\<rparr>],
      events = [ev_w5, ev_b5, ev_b7, ev_w7],
      event_details = []\<rparr>"

text \<open>
  A store with two months: the first has two events with two details each, the second one
  event with one detail.
\<close>

definition month_1 :: month where
  "month_1 = \<lparr>month_id = 1, month_bn = [2476], month_en = str ''Muharram''\<rparr>"

definition month_2 :: month where
  "month_2 = \<lparr>month_id = 2, month_bn = [2488], month_en = str ''Safar''\<rparr>"

definition event_3 :: event where
  "event_3 = \<lparr>event_id = 3, event_month_id = 1, day = str ''2''\<rparr>"

definition two_by_two :: store where
  "two_by_two =
     \<lparr>users = [],
      months = [month_1, month_2],
      events = [\<lparr>event_id = 1, event_month_id = 1, day = str ''1''\<rparr>,
                \<lparr>event_id = 2, event_month_id = 2, day = str ''1''\<rparr>,
                event_3],
      event_details =
        [\<lparr>detail_id = 1, detail_event_id = 1, detail = str ''a''\<rparr>,
         \<lparr>detail_id = 2, detail_event_id = 1, detail = str ''b''\<rparr>,
         \<lparr>detail_id = 3, detail_event_id = 2, detail = str ''c''\<rparr>,
         \<lparr>detail_id = 4, detail_event_id = 3, detail = str ''d''\<rparr>,
         \<lparr>detail_id = 5, detail_event_id = 3, detail = str ''e''\<rparr>]\<rparr>"

text \<open>The empty store.\<close>

definition empty_store :: store where
  "empty_store = \<lparr>users = [], months = [], events = [], event_details = []\<rparr>"

text \<open>
  A store with one user, and a stand-in for \<open>jwt.decode\<close> at one moment: the token
  \<open>good\<close> carries the subject \<open>admin\<close>, \<open>ghost\<close> a subject that is no user,
  \<open>nosub\<close> no subject; \<open>old\<close> has expired, and every other string is refused.
\<close>

definition admin_user :: user where
  "admin_user = \<lparr>user_id = 1, username = str ''admin'', hashed_password = str ''x''\<rparr>"

definition user_store :: store where
  "user_store = \<lparr>users = [admin_user], months = [], events = [], event_details = []\<rparr>"

definition table_decode :: "pystr \<Rightarrow> jwt_error + payload" where
  "table_decode s =
     (if s = str ''good'' then Inr \<lparr>claim_sub = Some (str ''admin''), claim_exp = Some 1800\<rparr>
      else if s = str ''ghost'' then Inr \<lparr>claim_sub = Some (str ''ghost''), claim_exp = Some 1800\<rparr>
      else if s = str ''nosub'' then Inr \<lparr>claim_sub = None, claim_exp = Some 1800\<rparr>
      else if s = str ''old'' then Inl ExpiredSignatureError
      else Inl JWTError)"


text \<open>Requests with a bearer header, with any or no header, and with the cookie.\<close>

definition bearer_request :: "pystr \<Rightarrow> request" where
  "bearer_request t = \<lparr>authorization = Some (str ''Bearer '' @ t), cookies = Map.empty\<rparr>"

definition plain_request :: "pystr option \<Rightarrow> request" where
  "plain_request h = \<lparr>authorization = h, cookies = Map.empty\<rparr>"


text \<open>
  A login as the example user. \<open>plain_verify\<close> stands in for \<open>verify_password\<close>
  and \<open>stamp_encode\<close> for an encoder to a string: it writes the subject, a dot and the
  expiry as one character.
\<close>

definition plain_verify :: "pystr \<Rightarrow> pystr \<Rightarrow> bool" where
  "plain_verify plain hashed = (plain = hashed)"

definition stamp_encode :: "payload \<Rightarrow> pystr" where
  "stamp_encode p =
     (case claim_sub p of None \<Rightarrow> [] | Some n \<Rightarrow> n) @
     (case claim_exp p of None \<Rightarrow> [] | Some e \<Rightarrow> [46, nat e])"

definition admin_form :: form_data where
  "admin_form = \<lparr>form_username = str ''admin'', form_password = str ''x''\<rparr>"

definition admin_claims :: payload where
  "admin_claims = \<lparr>claim_sub = Some (str ''admin''), claim_exp = None\<rparr>"

text \<open>Three details to search.\<close>

definition row_abz :: event_detail where
  "row_abz = \<lparr>detail_id = 1, detail_event_id = 1, detail = str ''abz''\<rparr>"

definition row_mixed :: event_detail where
  "row_mixed = \<lparr>detail_id = 2, detail_event_id = 1, detail = str ''XYZabcDEF''\<rparr>"

definition row_xy :: event_detail where
  "row_xy = \<lparr>detail_id = 3, detail_event_id = 2, detail = str ''xy''\<rparr>"

definition search_store :: store where
  "search_store =
     \<lparr>users = [], months = [], events = [], event_details = [row_abz, row_mixed, row_xy]\<rparr>"

text \<open>
  A detail that starts with a capital E with acute accent (U+00C9), \<open>Ecole\<close> with
  that first letter.
\<close>

definition row_ecole :: event_detail where
  "row_ecole = \<lparr>detail_id = 4, detail_event_id = 2, detail = [201, 99, 111, 108, 101]\<rparr>"

definition accent_store :: store where
  "accent_store = \<lparr>users = [], months = [], events = [], event_details = [row_ecole]\<rparr>"

text \<open>
  A month with two events, the first with two details and the second with one; the store
  that holds all of it but the detail of the second event, and the store that holds all.
\<close>

definition calendar_tree :: month_create where
  "calendar_tree =
     \<lparr>mc_month_bn = [2476], mc_month_en = str ''Muharram'',
      mc_events = [\<lparr>ec_day = str ''1'', ec_details = [str ''a'', str ''b'']\<rparr>,
                   \<lparr>ec_day = str ''2'', ec_details = [str ''c'']\<rparr>]\<rparr>"

definition partial_store :: store where
  "partial_store =
     \<lparr>users = [],
      months = [month_1],
      events = [\<lparr>event_id = 1, event_month_id = 1, day = str ''1''\<rparr>,
                \<lparr>event_id = 2, event_month_id = 1, day = str ''2''\<rparr>],
      event_details =
        [\<lparr>detail_id = 1, detail_event_id = 1, detail = str ''a''\<rparr>,
         \<lparr>detail_id = 2, detail_event_id = 1, detail = str ''b''\<rparr>]\<rparr>"

definition whole_store :: store where
  "whole_store =
     partial_store\<lparr>event_details := event_details partial_store @
        [\<lparr>detail_id = 3, detail_event_id = 2, detail = str ''c''\<rparr>]\<rparr>"

section \<open>Properties\<close>

lemma get_or_self_digit: "western_digit c \<Longrightarrow> get_or_self c = c + 2486"
proof -
  assume "western_digit c"
  then have "c \<in> {48, 49, 50, 51, 52, 53, 54, 55, 56, 57}"
    unfolding western_digit_def by (simp, arith)
  then show ?thesis
    by (auto simp: get_or_self_def eng_to_bn_def)
qed

lemma get_or_self_other: "\<not> western_digit c \<Longrightarrow> get_or_self c = c"
  by (auto simp: get_or_self_def eng_to_bn_def western_digit_def)

lemma to_bangla_digits_map: "to_bangla_digits s = map get_or_self s"
  by (induction s) (simp_all add: to_bangla_digits_def)

lemma to_bangla_digits_fixed:
  "to_bangla_digits s = s \<longleftrightarrow> (\<forall>c \<in> set s. \<not> western_digit c)"
proof (induction s)
  case Nil
  show ?case by (simp add: to_bangla_digits_map)
next
  case (Cons c s)
  have "get_or_self c = c \<longleftrightarrow> \<not> western_digit c"
    using get_or_self_digit [of c] get_or_self_other [of c] by auto
  with Cons show ?case by (simp add: to_bangla_digits_map)
qed

subsection \<open>Lookup of the events of a day\<close>

text \<open>
  C1. \<open>get_events_by_date\<close> returns the events of the month whose stored day equals
  the given string, if there are any. Only if there are none does it translate the string,
  each Western digit (U+0030 + k) to the Bangla digit of the same value (U+09E6 + k, which
  is 2486 code points further) and every other character to itself, and return the events
  of the month whose day equals the translation. If the string has no Western digit the
  second lookup is not made and the result is the empty list of the first. Nothing is
  translated from Bangla to Western digits: a string without Western digits, such as one
  of Bangla digits, only ever finds the events stored under that very string.
\<close>

theorem get_events_by_date_lookup:
  "get_events_by_date db m d =
     (let exact = filter (\<lambda>e. event_month_id e = m \<and> day e = d) (events db);
          d' = map (\<lambda>c. if western_digit c then c + 2486 else c) d
      in if exact \<noteq> [] then exact
         else if (\<exists>c \<in> set d. western_digit c)
           then filter (\<lambda>e. event_month_id e = m \<and> day e = d') (events db)
           else [])
   \<and> to_bangla_digits d = map (\<lambda>c. if western_digit c then c + 2486 else c) d
   \<and> to_bangla_digits (str ''0123456789'') =
       [2534, 2535, 2536, 2537, 2538, 2539, 2540, 2541, 2542, 2543]
   \<and> ((\<forall>c \<in> set d. \<not> western_digit c) \<longrightarrow>
        get_events_by_date db m d =
          filter (\<lambda>e. event_month_id e = m \<and> day e = d) (events db))"
proof -
  have a: "to_bangla_digits d = map (\<lambda>c. if western_digit c then c + 2486 else c) d"
    unfolding to_bangla_digits_map
    using get_or_self_digit get_or_self_other by (induction d) auto
  have b: "to_bangla_digits d \<noteq> d \<longleftrightarrow> (\<exists>c \<in> set d. western_digit c)"
    using to_bangla_digits_fixed [of d] by blast
  have c: "get_events_by_date db m d =
     (let exact = filter (\<lambda>e. event_month_id e = m \<and> day e = d) (events db);
          d' = map (\<lambda>c. if western_digit c then c + 2486 else c) d
      in if exact \<noteq> [] then exact
         else if (\<exists>c \<in> set d. western_digit c)
           then filter (\<lambda>e. event_month_id e = m \<and> day e = d') (events db)
           else [])"
    unfolding get_events_by_date_def events_on_def Let_def a [symmetric] b [symmetric]
    by simp
  have t: "to_bangla_digits (str ''0123456789'') =
       [2534, 2535, 2536, 2537, 2538, 2539, 2540, 2541, 2542, 2543]"
    by (simp add: str_def to_bangla_digits_def get_or_self_def eng_to_bn_def)
  have e: "(\<forall>c \<in> set d. \<not> western_digit c) \<longrightarrow>
        get_events_by_date db m d =
          filter (\<lambda>e. event_month_id e = m \<and> day e = d) (events db)"
    unfolding c by (simp add: Let_def)
  from c a t e show ?thesis by blast
qed

text \<open>
  On the example calendar: the exact match wins and the Bangla spelling is not added; a
  Western 7 finds the day stored in Bangla digits; Bangla digits find their own spelling;
  and a Bangla 7 does not find the day stored as a Western 7.
\<close>

theorem get_events_by_date_lookup_witness:
  "get_events_by_date days_store 1 (str ''5'') = [ev_w5]
   \<and> get_events_by_date days_store 1 (str ''7'') = [ev_b7]
   \<and> get_events_by_date days_store 1 [2539] = [ev_b5]
   \<and> \<not> western_digit 2541
   \<and> get_events_by_date days_store 2 [2541] = []"
proof -
  have 1: "get_events_by_date days_store 1 (str ''5'') = [ev_w5]"
    using get_events_by_date_lookup [of days_store 1 "str ''5''"]
    by (simp add: days_store_def ev_w5_def ev_b5_def ev_b7_def ev_w7_def str_def)
  have 2: "get_events_by_date days_store 1 (str ''7'') = [ev_b7]"
    using get_events_by_date_lookup [of days_store 1 "str ''7''"]
    by (simp add: days_store_def ev_w5_def ev_b5_def ev_b7_def ev_w7_def str_def
        western_digit_def)
  have 3: "get_events_by_date days_store 1 [2539] = [ev_b5]"
    using get_events_by_date_lookup [of days_store 1 "[2539]"]
    by (simp add: days_store_def ev_w5_def ev_b5_def ev_b7_def ev_w7_def str_def)
  have 4: "\<not> western_digit 2541"
    by (simp add: western_digit_def)
  have 5: "get_events_by_date days_store 2 [2541] = []"
    using 4 get_events_by_date_lookup [of days_store 2 "[2541]"]
    by (simp add: days_store_def ev_w5_def ev_b5_def ev_b7_def ev_w7_def str_def)
  from 1 2 3 4 5 show ?thesis by blast
qed

subsection \<open>Deleting\<close>

lemma first_filter_Some: "first (filter P xs) = Some x \<Longrightarrow> P x \<and> x \<in> set xs"
  by (induction xs) (auto split: if_splits)

lemma delete_event_rows_events:
  "e \<in> set (events (delete_event_rows db evs)) \<Longrightarrow>
     e \<in> set (events db) \<and> event_id e \<notin> event_id ` set evs"
  by (auto simp: delete_event_rows_def Let_def)

lemma delete_event_rows_details:
  "d \<in> set (event_details (delete_event_rows db evs)) \<Longrightarrow>
     d \<in> set (event_details db) \<and> detail_event_id d \<notin> event_id ` set evs"
  by (auto simp: delete_event_rows_def Let_def)

lemma first_filter_None: "first (filter P xs) = None \<Longrightarrow> \<forall>x \<in> set xs. \<not> P x"
  by (induction xs) (auto split: if_splits)

lemma delete_event_rows_kept_event:
  "e \<in> set (events db) \<Longrightarrow> event_id e \<notin> event_id ` set evs \<Longrightarrow>
     e \<in> set (events (delete_event_rows db evs))"
  by (auto simp: delete_event_rows_def Let_def)

lemma delete_event_rows_months: "months (delete_event_rows db evs) = months db"
  by (simp add: delete_event_rows_def Let_def)

lemma delete_event_rows_referential:
  assumes r: "referential db"
  shows "\<forall>d \<in> set (event_details (delete_event_rows db evs)).
           detail_event_id d \<in> event_id ` set (events (delete_event_rows db evs))"
proof
  fix d assume d: "d \<in> set (event_details (delete_event_rows db evs))"
  then have a: "d \<in> set (event_details db)" "detail_event_id d \<notin> event_id ` set evs"
    using delete_event_rows_details [of d db evs] by simp_all
  from r a(1) obtain e where e: "e \<in> set (events db)" "event_id e = detail_event_id d"
    unfolding referential_def by force
  with a(2) have "e \<in> set (events (delete_event_rows db evs))"
    using delete_event_rows_kept_event [of e db evs] by simp
  with e(2) show "detail_event_id d \<in> event_id ` set (events (delete_event_rows db evs))"
    by force
qed

lemma delete_month_rows_facts:
  assumes r: "month_id x = m"
  shows "(\<forall>e \<in> set (events (delete_month_rows db x)). event_month_id e \<noteq> m)
    \<and> (\<forall>d \<in> set (event_details (delete_month_rows db x)). \<forall>e \<in> set (events db).
               event_month_id e = m \<longrightarrow> detail_event_id d \<noteq> event_id e)
    \<and> (\<forall>y \<in> set (months (delete_month_rows db x)). month_id y \<noteq> m)"
proof -
  let ?evs = "filter (\<lambda>e. event_month_id e = m) (events db)"
  let ?db1 = "delete_event_rows db ?evs"
  let ?db' = "delete_month_rows db x"
  have ev: "events ?db' = events ?db1"
    and de: "event_details ?db' = event_details ?db1"
    and mo: "months ?db' = filter (\<lambda>y. month_id y \<noteq> m) (months ?db1)"
    by (simp_all add: delete_month_rows_def Let_def r)
  have 1: "\<forall>e \<in> set (events ?db'). event_month_id e \<noteq> m"
    unfolding ev using delete_event_rows_events [of _ db ?evs] by force
  have 2: "\<forall>d \<in> set (event_details ?db'). \<forall>e \<in> set (events db).
               event_month_id e = m \<longrightarrow> detail_event_id d \<noteq> event_id e"
    unfolding de using delete_event_rows_details [of _ db ?evs] by force
  have 3: "\<forall>y \<in> set (months ?db'). month_id y \<noteq> m"
    unfolding mo by simp
  from 1 2 3 show ?thesis by blast
qed

lemma delete_month_rows_referential:
  assumes r: "referential db" and x: "month_id x = m"
  shows "referential (delete_month_rows db x)"
proof -
  let ?evs = "filter (\<lambda>e. event_month_id e = m) (events db)"
  let ?db1 = "delete_event_rows db ?evs"
  let ?db' = "delete_month_rows db x"
  have ev: "events ?db' = events ?db1"
    and de: "event_details ?db' = event_details ?db1"
    and mo: "months ?db' = filter (\<lambda>y. month_id y \<noteq> m) (months db)"
    by (simp_all add: delete_month_rows_def Let_def x delete_event_rows_months)
  have a: "\<forall>e \<in> set (events ?db'). event_month_id e \<in> month_id ` set (months ?db')"
  proof
    fix e assume e: "e \<in> set (events ?db')"
    then have "e \<in> set (events db)"
      unfolding ev using delete_event_rows_events [of e db ?evs] by simp
    with r obtain y where y: "y \<in> set (months db)" "month_id y = event_month_id e"
      unfolding referential_def by force
    from e have "event_month_id e \<noteq> m"
      using delete_month_rows_facts [OF x, of db] by blast
    with y show "event_month_id e \<in> month_id ` set (months ?db')"
      unfolding mo by force
  qed
  have b: "\<forall>d \<in> set (event_details ?db'). detail_event_id d \<in> event_id ` set (events ?db')"
    unfolding ev de by (rule delete_event_rows_referential [OF r])
  from a b show ?thesis unfolding referential_def by blast
qed

lemma delete_event_rows_single_referential:
  assumes r: "referential db"
  shows "referential (delete_event_rows db [ev])"
proof -
  let ?db' = "delete_event_rows db [ev]"
  have a: "\<forall>e \<in> set (events ?db'). event_month_id e \<in> month_id ` set (months ?db')"
  proof
    fix e assume "e \<in> set (events ?db')"
    then have "e \<in> set (events db)"
      using delete_event_rows_events [of e db "[ev]"] by simp
    with r show "event_month_id e \<in> month_id ` set (months ?db')"
      unfolding referential_def delete_event_rows_months by blast
  qed
  have b: "\<forall>d \<in> set (event_details ?db'). detail_event_id d \<in> event_id ` set (events ?db')"
    by (rule delete_event_rows_referential [OF r])
  from a b show ?thesis unfolding referential_def by blast
qed

lemma delete_month_existing:
  assumes a: "get_month db m = Some x" "delete_month flt db m = Returned r db'"
  shows "r = Some x
      \<and> (\<forall>e \<in> set (events db'). event_month_id e \<noteq> m)
      \<and> (\<forall>d \<in> set (event_details db'). \<forall>e \<in> set (events db).
            event_month_id e = m \<longrightarrow> detail_event_id d \<noteq> event_id e)
      \<and> (\<forall>y \<in> set (months db'). month_id y \<noteq> m)"
proof -
  from a(1) have x: "month_id x = m"
    using first_filter_Some [of "\<lambda>r. month_id r = m" "months db" x]
    by (simp add: get_month_def)
  from a have d: "r = Some x" "db' = delete_month_rows db x"
    by (auto simp: delete_month_def split: if_splits)
  show ?thesis
    unfolding d using delete_month_rows_facts [OF x, of db] by simp
qed

lemma delete_month_referential:
  assumes a: "referential db" "delete_month flt db m = Returned r db'"
  shows "(\<forall>e \<in> set (events db'). event_month_id e \<noteq> m)
      \<and> (\<forall>d \<in> set (event_details db'). \<forall>e \<in> set (events db).
            event_month_id e = m \<longrightarrow> detail_event_id d \<noteq> event_id e)
      \<and> (\<forall>y \<in> set (months db'). month_id y \<noteq> m)
      \<and> referential db'"
proof (cases "get_month db m")
  case None
  then have "first (filter (\<lambda>r. month_id r = m) (months db)) = None"
    by (simp add: get_month_def)
  then have n: "\<forall>y \<in> set (months db). month_id y \<noteq> m"
    by (rule first_filter_None)
  from None a(2) have d: "db' = db"
    by (simp add: delete_month_def)
  have e: "\<forall>e \<in> set (events db). event_month_id e \<noteq> m"
  proof
    fix e assume "e \<in> set (events db)"
    with a(1) have "event_month_id e \<in> month_id ` set (months db)"
      unfolding referential_def by blast
    then obtain y where "y \<in> set (months db)" "event_month_id e = month_id y"
      by (auto simp: image_iff)
    with n show "event_month_id e \<noteq> m" by simp
  qed
  from e n a(1) show ?thesis unfolding d by blast
next
  case (Some x)
  then have x: "month_id x = m"
    using first_filter_Some [of "\<lambda>r. month_id r = m" "months db" x]
    by (simp add: get_month_def)
  from Some a(2) have d: "db' = delete_month_rows db x"
    by (auto simp: delete_month_def split: if_splits)
  from delete_month_existing [OF Some a(2)] delete_month_rows_referential [OF a(1) x]
  show ?thesis unfolding d by blast
qed

lemma delete_event_existing:
  assumes a: "get_event db i = Some ev" "delete_event flt db i = Returned q db'"
  shows "q = Some ev
      \<and> (\<forall>d \<in> set (event_details db'). detail_event_id d \<noteq> i)
      \<and> (\<forall>e \<in> set (events db'). event_id e \<noteq> i)"
proof -
  from a(1) have x: "event_id ev = i"
    using first_filter_Some [of "\<lambda>e. event_id e = i" "events db" ev]
    by (simp add: get_event_def)
  from a have d: "q = Some ev" "db' = delete_event_rows db [ev]"
    by (auto simp: delete_event_def split: if_splits)
  have 1: "\<forall>d \<in> set (event_details (delete_event_rows db [ev])). detail_event_id d \<noteq> i"
    using delete_event_rows_details [of _ db "[ev]"] x by force
  have 2: "\<forall>e \<in> set (events (delete_event_rows db [ev])). event_id e \<noteq> i"
    using delete_event_rows_events [of _ db "[ev]"] x by force
  from 1 2 show ?thesis unfolding d by blast
qed

lemma delete_event_referential:
  assumes a: "referential db" "delete_event flt db i = Returned q db'"
  shows "(\<forall>d \<in> set (event_details db'). detail_event_id d \<noteq> i)
      \<and> (\<forall>e \<in> set (events db'). event_id e \<noteq> i)
      \<and> referential db'"
proof (cases "get_event db i")
  case None
  then have "first (filter (\<lambda>e. event_id e = i) (events db)) = None"
    by (simp add: get_event_def)
  then have n: "\<forall>e \<in> set (events db). event_id e \<noteq> i"
    by (rule first_filter_None)
  from None a(2) have d: "db' = db"
    by (simp add: delete_event_def)
  have e: "\<forall>d \<in> set (event_details db). detail_event_id d \<noteq> i"
  proof
    fix d assume "d \<in> set (event_details db)"
    with a(1) have "detail_event_id d \<in> event_id ` set (events db)"
      unfolding referential_def by blast
    then obtain e where "e \<in> set (events db)" "detail_event_id d = event_id e"
      by (auto simp: image_iff)
    with n show "detail_event_id d \<noteq> i" by simp
  qed
  from e n a(1) show ?thesis unfolding d by blast
next
  case (Some ev)
  from Some a(2) have d: "db' = delete_event_rows db [ev]"
    by (auto simp: delete_event_def split: if_splits)
  from delete_event_existing [OF Some a(2)] delete_event_rows_single_referential [OF a(1), of ev]
  show ?thesis unfolding d by blast
qed

text \<open>
  C3. On a store that keeps the invariant of the data model, for every month key \<open>m\<close>:
  after \<open>delete_month\<close> has returned, the store holds no event of the month \<open>m\<close>,
  no detail of any event that belonged to the month \<open>m\<close> and no month with that key,
  and it keeps the invariant, so that the deletion has orphaned no event and no detail.
  For a month that exists this holds on every store, and the month is what is returned.
  \<open>delete_month\<close> returns whenever its commit does not fail. Likewise for
  \<open>delete_event\<close>: afterwards there is no detail of the event and no event with the
  key, and the invariant is kept.
\<close>

theorem delete_month_cascade:
  "(referential db \<and> delete_month flt db m = Returned r db' \<longrightarrow>
      (\<forall>e \<in> set (events db'). event_month_id e \<noteq> m)
      \<and> (\<forall>d \<in> set (event_details db'). \<forall>e \<in> set (events db).
            event_month_id e = m \<longrightarrow> detail_event_id d \<noteq> event_id e)
      \<and> (\<forall>y \<in> set (months db'). month_id y \<noteq> m)
      \<and> referential db')
   \<and> (get_month db m = Some x \<and> delete_month flt db m = Returned r db' \<longrightarrow>
      r = Some x
      \<and> (\<forall>e \<in> set (events db'). event_month_id e \<noteq> m)
      \<and> (\<forall>d \<in> set (event_details db'). \<forall>e \<in> set (events db).
            event_month_id e = m \<longrightarrow> detail_event_id d \<noteq> event_id e)
      \<and> (\<forall>y \<in> set (months db'). month_id y \<noteq> m))
   \<and> (\<not> flt 0 \<longrightarrow> (\<exists>r db'. delete_month flt db m = Returned r db'))
   \<and> (referential db \<and> delete_event flt db i = Returned q db'' \<longrightarrow>
      (\<forall>d \<in> set (event_details db''). detail_event_id d \<noteq> i)
      \<and> (\<forall>e \<in> set (events db''). event_id e \<noteq> i)
      \<and> referential db'')
   \<and> (get_event db i = Some ev \<and> delete_event flt db i = Returned q db'' \<longrightarrow>
      q = Some ev
      \<and> (\<forall>d \<in> set (event_details db''). detail_event_id d \<noteq> i)
      \<and> (\<forall>e \<in> set (events db''). event_id e \<noteq> i))
   \<and> (\<not> flt 0 \<longrightarrow> (\<exists>q db''. delete_event flt db i = Returned q db''))"
proof -
  have A: "referential db \<and> delete_month flt db m = Returned r db' \<longrightarrow>
      (\<forall>e \<in> set (events db'). event_month_id e \<noteq> m)
      \<and> (\<forall>d \<in> set (event_details db'). \<forall>e \<in> set (events db).
            event_month_id e = m \<longrightarrow> detail_event_id d \<noteq> event_id e)
      \<and> (\<forall>y \<in> set (months db'). month_id y \<noteq> m)
      \<and> referential db'"
  proof
    assume "referential db \<and> delete_month flt db m = Returned r db'"
    then have "referential db" "delete_month flt db m = Returned r db'"
      by simp_all
    then show "(\<forall>e \<in> set (events db'). event_month_id e \<noteq> m)
      \<and> (\<forall>d \<in> set (event_details db'). \<forall>e \<in> set (events db).
            event_month_id e = m \<longrightarrow> detail_event_id d \<noteq> event_id e)
      \<and> (\<forall>y \<in> set (months db'). month_id y \<noteq> m)
      \<and> referential db'"
      by (rule delete_month_referential)
  qed
  have B: "get_month db m = Some x \<and> delete_month flt db m = Returned r db' \<longrightarrow>
      r = Some x
      \<and> (\<forall>e \<in> set (events db'). event_month_id e \<noteq> m)
      \<and> (\<forall>d \<in> set (event_details db'). \<forall>e \<in> set (events db).
            event_month_id e = m \<longrightarrow> detail_event_id d \<noteq> event_id e)
      \<and> (\<forall>y \<in> set (months db'). month_id y \<noteq> m)"
  proof
    assume "get_month db m = Some x \<and> delete_month flt db m = Returned r db'"
    then have "get_month db m = Some x" "delete_month flt db m = Returned r db'"
      by simp_all
    then show "r = Some x
      \<and> (\<forall>e \<in> set (events db'). event_month_id e \<noteq> m)
      \<and> (\<forall>d \<in> set (event_details db'). \<forall>e \<in> set (events db).
            event_month_id e = m \<longrightarrow> detail_event_id d \<noteq> event_id e)
      \<and> (\<forall>y \<in> set (months db'). month_id y \<noteq> m)"
      by (rule delete_month_existing)
  qed
  have C: "\<not> flt 0 \<longrightarrow> (\<exists>r db'. delete_month flt db m = Returned r db')"
    by (simp add: delete_month_def split: option.splits)
  have D: "referential db \<and> delete_event flt db i = Returned q db'' \<longrightarrow>
      (\<forall>d \<in> set (event_details db''). detail_event_id d \<noteq> i)
      \<and> (\<forall>e \<in> set (events db''). event_id e \<noteq> i)
      \<and> referential db''"
  proof
    assume "referential db \<and> delete_event flt db i = Returned q db''"
    then have "referential db" "delete_event flt db i = Returned q db''"
      by simp_all
    then show "(\<forall>d \<in> set (event_details db''). detail_event_id d \<noteq> i)
      \<and> (\<forall>e \<in> set (events db''). event_id e \<noteq> i)
      \<and> referential db''"
      by (rule delete_event_referential)
  qed
  have E: "get_event db i = Some ev \<and> delete_event flt db i = Returned q db'' \<longrightarrow>
      q = Some ev
      \<and> (\<forall>d \<in> set (event_details db''). detail_event_id d \<noteq> i)
      \<and> (\<forall>e \<in> set (events db''). event_id e \<noteq> i)"
  proof
    assume "get_event db i = Some ev \<and> delete_event flt db i = Returned q db''"
    then have "get_event db i = Some ev" "delete_event flt db i = Returned q db''"
      by simp_all
    then show "q = Some ev
      \<and> (\<forall>d \<in> set (event_details db''). detail_event_id d \<noteq> i)
      \<and> (\<forall>e \<in> set (events db''). event_id e \<noteq> i)"
      by (rule delete_event_existing)
  qed
  have F: "\<not> flt 0 \<longrightarrow> (\<exists>q db''. delete_event flt db i = Returned q db'')"
    by (simp add: delete_event_def split: option.splits)
  show ?thesis
    by (intro conjI) (rule A, rule B, rule C, rule D, rule E, rule F)
qed

lemma two_by_two_referential: "referential two_by_two"
  by (simp add: referential_def two_by_two_def month_1_def month_2_def event_3_def)

text \<open>
  On the example store, which keeps the invariant: the first month, with two events of two
  details each, is deleted with all of them; no event of a month 7 is there after
  \<open>delete_month\<close> for it; the third event is deleted with its details.
\<close>

theorem delete_month_cascade_witness:
  "referential two_by_two \<and> \<not> no_faults 0
   \<and> get_month two_by_two 1 = Some month_1
   \<and> (\<exists>db'. delete_month no_faults two_by_two 1 = Returned (Some month_1) db'
         \<and> (\<forall>e \<in> set (events db'). event_month_id e \<noteq> 1)
         \<and> (\<forall>d \<in> set (event_details db'). \<forall>e \<in> set (events two_by_two).
               event_month_id e = 1 \<longrightarrow> detail_event_id d \<noteq> event_id e)
         \<and> (\<forall>y \<in> set (months db'). month_id y \<noteq> 1)
         \<and> referential db')
   \<and> (\<exists>r db'. delete_month no_faults two_by_two 7 = Returned r db'
         \<and> (\<forall>e \<in> set (events db'). event_month_id e \<noteq> 7)
         \<and> referential db')
   \<and> get_event two_by_two 3 = Some event_3
   \<and> (\<exists>db'. delete_event no_faults two_by_two 3 = Returned (Some event_3) db'
         \<and> (\<forall>d \<in> set (event_details db'). detail_event_id d \<noteq> 3)
         \<and> (\<forall>e \<in> set (events db'). event_id e \<noteq> 3)
         \<and> referential db')"
proof -
  have h0: "referential two_by_two"
    by (rule two_by_two_referential)
  have h1: "get_month two_by_two 1 = Some month_1"
    by (simp add: get_month_def two_by_two_def month_1_def month_2_def)
  have h2: "\<not> no_faults 0"
    by (simp add: no_faults_def)
  have h4: "get_event two_by_two 3 = Some event_3"
    by (simp add: get_event_def two_by_two_def event_3_def)
  from delete_month_cascade [where db = two_by_two and m = 1 and flt = no_faults,
      THEN conjunct2, THEN conjunct2, THEN conjunct1, THEN mp, OF h2]
  obtain r db' where a: "delete_month no_faults two_by_two 1 = Returned r db'"
    by blast
  from delete_month_cascade [where db = two_by_two and m = 1 and flt = no_faults
      and r = r and db' = db', THEN conjunct1, THEN mp, OF conjI [OF h0 a]]
  have a1: "(\<forall>e \<in> set (events db'). event_month_id e \<noteq> 1)
         \<and> (\<forall>d \<in> set (event_details db'). \<forall>e \<in> set (events two_by_two).
               event_month_id e = 1 \<longrightarrow> detail_event_id d \<noteq> event_id e)
         \<and> (\<forall>y \<in> set (months db'). month_id y \<noteq> 1)
         \<and> referential db'" .
  from delete_month_cascade [where db = two_by_two and m = 1 and flt = no_faults
      and r = r and db' = db' and x = month_1, THEN conjunct2, THEN conjunct1, THEN mp,
      OF conjI [OF h1 a]]
  have a2: "r = Some month_1"
    by (rule conjunct1)
  have 1: "\<exists>db'. delete_month no_faults two_by_two 1 = Returned (Some month_1) db'
         \<and> (\<forall>e \<in> set (events db'). event_month_id e \<noteq> 1)
         \<and> (\<forall>d \<in> set (event_details db'). \<forall>e \<in> set (events two_by_two).
               event_month_id e = 1 \<longrightarrow> detail_event_id d \<noteq> event_id e)
         \<and> (\<forall>y \<in> set (months db'). month_id y \<noteq> 1)
         \<and> referential db'"
    using a a1 unfolding a2 by (intro exI [of _ db'] conjI) simp_all
  from delete_month_cascade [where db = two_by_two and m = 7 and flt = no_faults,
      THEN conjunct2, THEN conjunct2, THEN conjunct1, THEN mp, OF h2]
  obtain r7 db7 where b: "delete_month no_faults two_by_two 7 = Returned r7 db7"
    by blast
  from delete_month_cascade [where db = two_by_two and m = 7 and flt = no_faults
      and r = r7 and db' = db7, THEN conjunct1, THEN mp, OF conjI [OF h0 b]]
  have b1: "(\<forall>e \<in> set (events db7). event_month_id e \<noteq> 7) \<and> referential db7"
    by simp
  have 2: "\<exists>r db'. delete_month no_faults two_by_two 7 = Returned r db'
         \<and> (\<forall>e \<in> set (events db'). event_month_id e \<noteq> 7)
         \<and> referential db'"
    using b b1 by (intro exI [of _ r7] exI [of _ db7] conjI) simp_all
  from delete_month_cascade [where db = two_by_two and i = 3 and flt = no_faults,
      THEN conjunct2, THEN conjunct2, THEN conjunct2, THEN conjunct2, THEN conjunct2,
      THEN mp, OF h2]
  obtain q dbe where c: "delete_event no_faults two_by_two 3 = Returned q dbe"
    by blast
  from delete_month_cascade [where db = two_by_two and i = 3 and flt = no_faults
      and q = q and db'' = dbe, THEN conjunct2, THEN conjunct2, THEN conjunct2, THEN conjunct1,
      THEN mp, OF conjI [OF h0 c]]
  have c1: "(\<forall>d \<in> set (event_details dbe). detail_event_id d \<noteq> 3)
         \<and> (\<forall>e \<in> set (events dbe). event_id e \<noteq> 3)
         \<and> referential dbe" .
  from delete_month_cascade [where db = two_by_two and i = 3 and flt = no_faults
      and q = q and db'' = dbe and ev = event_3, THEN conjunct2, THEN conjunct2, THEN conjunct2,
      THEN conjunct2, THEN conjunct1, THEN mp, OF conjI [OF h4 c]]
  have c2: "q = Some event_3"
    by (rule conjunct1)
  have 3: "\<exists>db'. delete_event no_faults two_by_two 3 = Returned (Some event_3) db'
         \<and> (\<forall>d \<in> set (event_details db'). detail_event_id d \<noteq> 3)
         \<and> (\<forall>e \<in> set (events db'). event_id e \<noteq> 3)
         \<and> referential db'"
    using c c1 unfolding c2 by (intro exI [of _ dbe] conjI) simp_all
  show ?thesis
    by (intro conjI) (rule h0, rule h2, rule h1, rule 1, rule 2, rule h4, rule 3)
qed

subsection \<open>Renaming a month\<close>

text \<open>
  C9. If no month with the key \<open>m\<close> exists, \<open>update_month\<close> returns \<open>None\<close> and
  the store is as before. If one exists and the commit succeeds, the month is returned with
  the two new names; the table of months has the same rows in the same places, each with
  its key, the rows with the key \<open>m\<close> with the two new names and every other row as it
  was; the events (so also the events of the month \<open>m\<close>), the details and the users are
  as before. If the commit fails the operation raises and the store is as before.
\<close>

theorem update_month_frame:
  "(get_month db m = None \<longrightarrow> update_month flt db m b = Returned None db)
   \<and> (get_month db m = Some r \<and> flt 0 \<longrightarrow> update_month flt db m b = Raised db)
   \<and> (get_month db m = Some r \<and> \<not> flt 0 \<longrightarrow>
        (\<exists>db'. update_month flt db m b =
                 Returned (Some (r\<lparr>month_bn := mb_month_bn b, month_en := mb_month_en b\<rparr>)) db'
           \<and> length (months db') = length (months db)
           \<and> (\<forall>k < length (months db).
                 month_id (months db' ! k) = month_id (months db ! k)
                 \<and> (if month_id (months db ! k) = m
                    then month_bn (months db' ! k) = mb_month_bn b
                       \<and> month_en (months db' ! k) = mb_month_en b
                    else months db' ! k = months db ! k))
           \<and> events db' = events db
           \<and> filter (\<lambda>e. event_month_id e = m) (events db') =
               filter (\<lambda>e. event_month_id e = m) (events db)
           \<and> event_details db' = event_details db
           \<and> users db' = users db))"
  by (auto simp: update_month_def)

text \<open>
  On the example store: there is no month 7; the second month is renamed, the first month
  and everything else stay.
\<close>

theorem update_month_frame_witness:
  "get_month two_by_two 7 = None
   \<and> update_month no_faults two_by_two 7 \<lparr>mb_month_bn = [2480], mb_month_en = str ''Rajab''\<rparr> =
       Returned None two_by_two
   \<and> get_month two_by_two 2 = Some month_2 \<and> \<not> no_faults 0 \<and> fail_at 0 0
   \<and> update_month (fail_at 0) two_by_two 2
        \<lparr>mb_month_bn = [2480], mb_month_en = str ''Rajab''\<rparr> = Raised two_by_two
   \<and> (\<exists>db'. update_month no_faults two_by_two 2
               \<lparr>mb_month_bn = [2480], mb_month_en = str ''Rajab''\<rparr> =
             Returned (Some \<lparr>month_id = 2, month_bn = [2480], month_en = str ''Rajab''\<rparr>) db'
         \<and> months db' = [month_1, \<lparr>month_id = 2, month_bn = [2480], month_en = str ''Rajab''\<rparr>]
         \<and> events db' = events two_by_two
         \<and> event_details db' = event_details two_by_two
         \<and> users db' = users two_by_two)"
proof -
  let ?b = "\<lparr>mb_month_bn = [2480], mb_month_en = str ''Rajab''\<rparr>"
  have h1: "get_month two_by_two 7 = None"
    by (simp add: get_month_def two_by_two_def month_1_def month_2_def)
  have h2: "get_month two_by_two 2 = Some month_2"
    by (simp add: get_month_def two_by_two_def month_1_def month_2_def)
  have h3: "\<not> no_faults 0" "fail_at 0 0"
    by (simp_all add: no_faults_def fail_at_def)
  have m: "months two_by_two = [month_1, month_2]"
    by (simp add: two_by_two_def)
  from update_month_frame [of two_by_two 2 "fail_at 0" ?b month_2] h2 h3
  have a: "update_month (fail_at 0) two_by_two 2 ?b = Raised two_by_two"
    by blast
  from update_month_frame [of two_by_two 7 no_faults ?b month_2] h1
  have b: "update_month no_faults two_by_two 7 ?b = Returned None two_by_two"
    by blast
  from update_month_frame [of two_by_two 2 no_faults ?b month_2] h2 h3
  obtain db' where r: "update_month no_faults two_by_two 2 ?b =
        Returned (Some (month_2\<lparr>month_bn := mb_month_bn ?b, month_en := mb_month_en ?b\<rparr>)) db'"
    and l: "length (months db') = length (months two_by_two)"
    and k: "\<forall>k < length (months two_by_two).
                 month_id (months db' ! k) = month_id (months two_by_two ! k)
                 \<and> (if month_id (months two_by_two ! k) = 2
                    then month_bn (months db' ! k) = mb_month_bn ?b
                       \<and> month_en (months db' ! k) = mb_month_en ?b
                    else months db' ! k = months two_by_two ! k)"
    and f: "events db' = events two_by_two" "event_details db' = event_details two_by_two"
      "users db' = users two_by_two"
    by blast
  from k [rule_format, of 0] k [rule_format, of 1]
  have "months db' ! 0 = month_1" "months db' ! 1 = \<lparr>month_id = 2, month_bn = [2480], month_en = str ''Rajab''\<rparr>"
    by (simp_all add: m month_1_def month_2_def)
  with l have "months db' = [month_1, \<lparr>month_id = 2, month_bn = [2480], month_en = str ''Rajab''\<rparr>]"
    by (simp add: m list_eq_iff_nth_eq less_Suc_eq)
  with r f have "\<exists>db'. update_month no_faults two_by_two 2 ?b =
             Returned (Some \<lparr>month_id = 2, month_bn = [2480], month_en = str ''Rajab''\<rparr>) db'
         \<and> months db' = [month_1, \<lparr>month_id = 2, month_bn = [2480], month_en = str ''Rajab''\<rparr>]
         \<and> events db' = events two_by_two
         \<and> event_details db' = event_details two_by_two
         \<and> users db' = users two_by_two"
    by (simp add: month_2_def)
  with h1 h2 h3 a b show ?thesis by blast
qed

subsection \<open>The callers of the admin routes\<close>

lemma startswith_append: "startswith (p @ s) p"
  by (simp add: startswith_def)

lemma startswith_iff: "startswith s p \<longleftrightarrow> (\<exists>t. s = p @ t)"
  unfolding startswith_def
  by (metis append_eq_conv_conj append_take_drop_id)

lemma bearer_len: "length (str ''Bearer '') = 7"
  by (simp add: str_def)

lemma drop_bearer: "drop 7 (str ''Bearer '' @ t) = t"
  by (simp add: str_def)

lemma oauth2_scheme_bearer:
  "authorization req = Some (str ''Bearer '' @ t) \<Longrightarrow> oauth2_scheme req = Inr t"
  by (simp add: oauth2_scheme_def startswith_append drop_bearer del: drop_append)

text \<open>
  C4. Every call of an admin route ends either with the exception of status 401 and the
  header \<open>WWW-Authenticate: Bearer\<close>, before the route's function has run, or with what
  the route's function does. It ends with that exception when the header is absent, when
  the header does not start with \<open>Bearer\<close> and a space, when decoding the token raises
  (whatever the library's reason: a bad signature, a malformed token, an expired one), when
  the claims have no subject, and when no user has the subject as name. The route's
  function runs exactly when the header holds a token that decodes to claims whose subject
  is the name of a user.
\<close>

theorem admin_route_bearer_auth:
  "(case admin_route decode flt db req call of
      Inl e \<Rightarrow> status_code e = 401 \<and> map_of (headers e) ''WWW-Authenticate'' = Some ''Bearer''
    | Inr out \<Rightarrow> out = admin_handler flt db call)
   \<and> (authorization req = None \<longrightarrow>
        admin_route decode flt db req call = Inl not_authenticated)
   \<and> (authorization req = Some h \<and> \<not> startswith h (str ''Bearer '') \<longrightarrow>
        admin_route decode flt db req call = Inl not_authenticated)
   \<and> (authorization req = Some (str ''Bearer '' @ t) \<longrightarrow>
        (decode t = Inl err \<longrightarrow>
           admin_route decode flt db req call = Inl credentials_exception)
      \<and> (decode t = Inr p \<and> claim_sub p = None \<longrightarrow>
           admin_route decode flt db req call = Inl credentials_exception)
      \<and> (decode t = Inr p \<and> claim_sub p = Some name \<and> get_user_by_username db name = None \<longrightarrow>
           admin_route decode flt db req call = Inl credentials_exception)
      \<and> (decode t = Inr p \<and> claim_sub p = Some name \<and> get_user_by_username db name = Some u \<longrightarrow>
           admin_route decode flt db req call = Inr (admin_handler flt db call)))
   \<and> ((\<exists>out. admin_route decode flt db req call = Inr out) \<longleftrightarrow>
        (\<exists>t p name u. authorization req = Some (str ''Bearer '' @ t) \<and> decode t = Inr p
            \<and> claim_sub p = Some name \<and> get_user_by_username db name = Some u))"
proof -
  have 1: "(case admin_route decode flt db req call of
      Inl e \<Rightarrow> status_code e = 401 \<and> map_of (headers e) ''WWW-Authenticate'' = Some ''Bearer''
    | Inr out \<Rightarrow> out = admin_handler flt db call)"
    by (simp add: admin_route_def oauth2_scheme_def get_current_user_def not_authenticated_def
        credentials_exception_def split: sum.splits option.splits)
  have 2: "authorization req = None \<longrightarrow>
        admin_route decode flt db req call = Inl not_authenticated"
    by (simp add: admin_route_def oauth2_scheme_def)
  have 3: "authorization req = Some h \<and> \<not> startswith h (str ''Bearer '') \<longrightarrow>
        admin_route decode flt db req call = Inl not_authenticated"
    by (simp add: admin_route_def oauth2_scheme_def)
  have 4: "authorization req = Some (str ''Bearer '' @ t) \<longrightarrow>
        (decode t = Inl err \<longrightarrow>
           admin_route decode flt db req call = Inl credentials_exception)
      \<and> (decode t = Inr p \<and> claim_sub p = None \<longrightarrow>
           admin_route decode flt db req call = Inl credentials_exception)
      \<and> (decode t = Inr p \<and> claim_sub p = Some name \<and> get_user_by_username db name = None \<longrightarrow>
           admin_route decode flt db req call = Inl credentials_exception)
      \<and> (decode t = Inr p \<and> claim_sub p = Some name \<and> get_user_by_username db name = Some u \<longrightarrow>
           admin_route decode flt db req call = Inr (admin_handler flt db call))"
    by (simp add: admin_route_def get_current_user_def oauth2_scheme_bearer)
  have 5: "(\<exists>out. admin_route decode flt db req call = Inr out) \<longleftrightarrow>
        (\<exists>t p name u. authorization req = Some (str ''Bearer '' @ t) \<and> decode t = Inr p
            \<and> claim_sub p = Some name \<and> get_user_by_username db name = Some u)"
  proof
    assume "\<exists>out. admin_route decode flt db req call = Inr out"
    then obtain h where h: "authorization req = Some h" "startswith h (str ''Bearer '')"
      and g: "\<exists>u. get_current_user decode db (drop 7 h) = Inr u"
      by (auto simp: admin_route_def oauth2_scheme_def split: sum.splits option.splits if_splits)
    from h(2) obtain t where t: "h = str ''Bearer '' @ t"
      using startswith_iff by blast
    from g obtain p name u where "decode t = Inr p" "claim_sub p = Some name"
      "get_user_by_username db name = Some u"
      by (auto simp: get_current_user_def t drop_bearer simp del: drop_append
          split: sum.splits option.splits)
    with h t show "\<exists>t p name u. authorization req = Some (str ''Bearer '' @ t) \<and> decode t = Inr p
            \<and> claim_sub p = Some name \<and> get_user_by_username db name = Some u"
      by blast
  next
    assume "\<exists>t p name u. authorization req = Some (str ''Bearer '' @ t) \<and> decode t = Inr p
            \<and> claim_sub p = Some name \<and> get_user_by_username db name = Some u"
    then show "\<exists>out. admin_route decode flt db req call = Inr out"
      by (auto simp: admin_route_def get_current_user_def oauth2_scheme_bearer)
  qed
  from 1 2 3 4 5 show ?thesis by blast
qed

lemma table_decode_simps:
  "table_decode (str ''good'') = Inr \<lparr>claim_sub = Some (str ''admin''), claim_exp = Some 1800\<rparr>"
  "table_decode (str ''ghost'') = Inr \<lparr>claim_sub = Some (str ''ghost''), claim_exp = Some 1800\<rparr>"
  "table_decode (str ''nosub'') = Inr \<lparr>claim_sub = None, claim_exp = Some 1800\<rparr>"
  "table_decode (str ''old'') = Inl ExpiredSignatureError"
  "table_decode (str ''forged'') = Inl JWTError"
  by (simp_all add: table_decode_def str_def)

lemma user_store_lookup:
  "get_user_by_username user_store (str ''admin'') = Some admin_user"
  "get_user_by_username user_store (str ''ghost'') = None"
  by (simp_all add: get_user_by_username_def user_store_def admin_user_def str_def)

text \<open>
  On the example store: no header, a header of another scheme, a forged token, an expired
  one, one without subject and one of an unknown subject are refused with 401; the good
  token lets the route run.
\<close>

theorem admin_route_bearer_auth_witness:
  "admin_route table_decode no_faults user_store (plain_request None) (Delete_month 1) =
     Inl not_authenticated
   \<and> \<not> startswith (str ''Basic YWRtaW4='') (str ''Bearer '')
   \<and> admin_route table_decode no_faults user_store (plain_request (Some (str ''Basic YWRtaW4='')))
       (Delete_month 1) = Inl not_authenticated
   \<and> table_decode (str ''forged'') = Inl JWTError
   \<and> admin_route table_decode no_faults user_store (bearer_request (str ''forged''))
       (Delete_month 1) = Inl credentials_exception
   \<and> table_decode (str ''old'') = Inl ExpiredSignatureError
   \<and> admin_route table_decode no_faults user_store (bearer_request (str ''old''))
       (Delete_month 1) = Inl credentials_exception
   \<and> admin_route table_decode no_faults user_store (bearer_request (str ''nosub''))
       (Delete_month 1) = Inl credentials_exception
   \<and> get_user_by_username user_store (str ''ghost'') = None
   \<and> admin_route table_decode no_faults user_store (bearer_request (str ''ghost''))
       (Delete_month 1) = Inl credentials_exception
   \<and> get_user_by_username user_store (str ''admin'') = Some admin_user
   \<and> admin_route table_decode no_faults user_store (bearer_request (str ''good''))
       (Delete_month 1) = Inr (Returned (Month_reply None) user_store)
   \<and> status_code not_authenticated = 401
   \<and> map_of (headers not_authenticated) ''WWW-Authenticate'' = Some ''Bearer''
   \<and> status_code credentials_exception = 401
   \<and> map_of (headers credentials_exception) ''WWW-Authenticate'' = Some ''Bearer''"
proof -
  let ?R = "\<lambda>req. admin_route table_decode no_faults user_store req (Delete_month 1)"
  have b: "\<And>t. authorization (bearer_request t) = Some (str ''Bearer '' @ t)"
    by (simp add: bearer_request_def)
  have n: "\<not> startswith (str ''Basic YWRtaW4='') (str ''Bearer '')"
    by (simp add: startswith_def str_def)
  have h: "admin_handler no_faults user_store (Delete_month 1) = Returned (Month_reply None) user_store"
    by (simp add: delete_month_def get_month_def user_store_def)
  have 1: "?R (plain_request None) = Inl not_authenticated"
    using admin_route_bearer_auth [where decode = table_decode and flt = no_faults
        and db = user_store
        and req = "plain_request None" and call = "Delete_month 1"]
    by (simp add: plain_request_def)
  have 2: "?R (plain_request (Some (str ''Basic YWRtaW4=''))) = Inl not_authenticated"
    using n admin_route_bearer_auth [where decode = table_decode and flt = no_faults
        and db = user_store
        and req = "plain_request (Some (str ''Basic YWRtaW4=''))" and call = "Delete_month 1"
        and h = "str ''Basic YWRtaW4=''"]
    by (simp add: plain_request_def)
  have 3: "?R (bearer_request (str ''forged'')) = Inl credentials_exception"
    using b table_decode_simps
      admin_route_bearer_auth [where decode = table_decode and flt = no_faults
        and db = user_store
        and req = "bearer_request (str ''forged'')" and call = "Delete_month 1"
        and t = "str ''forged''" and err = JWTError]
    by simp
  have 4: "?R (bearer_request (str ''old'')) = Inl credentials_exception"
    using b table_decode_simps
      admin_route_bearer_auth [where decode = table_decode and flt = no_faults
        and db = user_store
        and req = "bearer_request (str ''old'')" and call = "Delete_month 1"
        and t = "str ''old''" and err = ExpiredSignatureError]
    by simp
  have 5: "?R (bearer_request (str ''nosub'')) = Inl credentials_exception"
    using b table_decode_simps
      admin_route_bearer_auth [where decode = table_decode and flt = no_faults
        and db = user_store
        and req = "bearer_request (str ''nosub'')" and call = "Delete_month 1"
        and t = "str ''nosub''" and p = "\<lparr>claim_sub = None, claim_exp = Some 1800\<rparr>"]
    by simp
  have 6: "?R (bearer_request (str ''ghost'')) = Inl credentials_exception"
    using b table_decode_simps user_store_lookup
      admin_route_bearer_auth [where decode = table_decode and flt = no_faults
        and db = user_store
        and req = "bearer_request (str ''ghost'')" and call = "Delete_month 1"
        and t = "str ''ghost''"
        and p = "\<lparr>claim_sub = Some (str ''ghost''), claim_exp = Some 1800\<rparr>"
        and name = "str ''ghost''"]
    by simp
  have 7: "?R (bearer_request (str ''good'')) = Inr (Returned (Month_reply None) user_store)"
    using b table_decode_simps user_store_lookup h
      admin_route_bearer_auth [where decode = table_decode and flt = no_faults
        and db = user_store
        and req = "bearer_request (str ''good'')" and call = "Delete_month 1"
        and t = "str ''good''"
        and p = "\<lparr>claim_sub = Some (str ''admin''), claim_exp = Some 1800\<rparr>"
        and name = "str ''admin''" and u = admin_user]
    by simp
  have 8: "status_code not_authenticated = 401"
    "map_of (headers not_authenticated) ''WWW-Authenticate'' = Some ''Bearer''"
    using 1 admin_route_bearer_auth [where decode = table_decode and flt = no_faults
        and db = user_store
        and req = "plain_request None" and call = "Delete_month 1"]
    by simp_all
  have 9: "status_code credentials_exception = 401"
    "map_of (headers credentials_exception) ''WWW-Authenticate'' = Some ''Bearer''"
    using 3 admin_route_bearer_auth [where decode = table_decode and flt = no_faults
        and db = user_store
        and req = "bearer_request (str ''forged'')" and call = "Delete_month 1"]
    by simp_all
  from n 1 2 3 4 5 6 7 8 9 table_decode_simps user_store_lookup show ?thesis by simp
qed

subsection \<open>The user of the dashboard\<close>



subsection \<open>The expiry of a token\<close>

lemma jwt_decode_window:
  "(\<exists>p. jwt_decode key t (jwt_encode key (data\<lparr>claim_exp := Some e\<rparr>)) = Inr p) \<longleftrightarrow> t < e"
  by (simp add: jwt_decode_def jwt_encode_def)

text \<open>
  C6. A token issued by \<open>login_for_access_token\<close> (the route \<open>/token\<close>) carries
  the expiry of the time of issue plus 30 minutes; a token issued by \<open>login_submit\<close>
  (the dashboard's login), which passes no ttl, carries the time of issue plus 15 minutes,
  as does every token that \<open>create_access_token\<close> makes without ttl; with a ttl
  \<open>d\<close> other than zero \<open>create_access_token\<close> sets the expiry to the time of issue
  plus \<open>d\<close>. Decoding a token of the route \<open>/token\<close> succeeds at every time before
  the time of issue plus 30 minutes and fails from then on; the same holds for every token
  issued with a ttl \<open>d\<close> other than zero and the time of issue plus \<open>d\<close>, and for
  every token issued without ttl and the time of issue plus 15 minutes.
\<close>

theorem token_expiry:
  "(login_for_access_token verify_password encode now db form = Inr resp \<longrightarrow>
      (\<exists>u. get_user_by_username db (form_username form) = Some u
         \<and> access_token resp =
             encode \<lparr>claim_sub = Some (username u),
                     claim_exp = Some (now + minutes 30)\<rparr>))
   \<and> (login_submit verify_password encode' now db form = Redirect url cookie \<longrightarrow>
      (\<exists>u. get_user_by_username db (form_username form) = Some u
         \<and> cookie =
             str ''Bearer '' @
             encode' \<lparr>claim_sub = Some (username u),
                      claim_exp = Some (now + minutes 15)\<rparr>))
   \<and> create_access_token encode now data None =
       encode (data\<lparr>claim_exp := Some (now + minutes 15)\<rparr>)
   \<and> (d \<noteq> 0 \<longrightarrow>
        create_access_token encode now data (Some d) =
          encode (data\<lparr>claim_exp := Some (now + d)\<rparr>))
   \<and> (login_for_access_token verify_password (jwt_encode key) now db form = Inr issued \<longrightarrow>
        ((\<exists>p. jwt_decode key t (access_token issued) = Inr p) \<longleftrightarrow> t < now + minutes 30))
   \<and> (d \<noteq> 0 \<longrightarrow>
        ((\<exists>p. jwt_decode key t (create_access_token (jwt_encode key) now data (Some d)) = Inr p)
           \<longleftrightarrow> t < now + d))
   \<and> ((\<exists>p. jwt_decode key t (create_access_token (jwt_encode key) now data None) = Inr p)
         \<longleftrightarrow> t < now + minutes 15)"
proof -
  have 1: "login_for_access_token verify_password encode now db form = Inr resp \<longrightarrow>
      (\<exists>u. get_user_by_username db (form_username form) = Some u
         \<and> access_token resp =
             encode \<lparr>claim_sub = Some (username u),
                     claim_exp = Some (now + minutes 30)\<rparr>)" for encode :: "payload \<Rightarrow> 'x" and resp
    by (auto simp: login_for_access_token_def create_access_token_def
        ACCESS_TOKEN_EXPIRE_MINUTES_def minutes_def split: option.splits if_splits)
  have 2: "login_submit verify_password encode' now db form = Redirect url cookie \<longrightarrow>
      (\<exists>u. get_user_by_username db (form_username form) = Some u
         \<and> cookie =
             str ''Bearer '' @
             encode' \<lparr>claim_sub = Some (username u),
                      claim_exp = Some (now + minutes 15)\<rparr>)"
    by (auto simp: login_submit_def create_access_token_def split: option.splits if_splits)
  have 3: "create_access_token encode now data None =
       encode (data\<lparr>claim_exp := Some (now + minutes 15)\<rparr>)"
    by (simp add: create_access_token_def)
  have 4: "d \<noteq> 0 \<longrightarrow>
        create_access_token encode now data (Some d) =
          encode (data\<lparr>claim_exp := Some (now + d)\<rparr>)"
    by (simp add: create_access_token_def)
  have 5: "login_for_access_token verify_password (jwt_encode key) now db form = Inr issued \<longrightarrow>
        ((\<exists>p. jwt_decode key t (access_token issued) = Inr p) \<longleftrightarrow> t < now + minutes 30)"
  proof
    assume a: "login_for_access_token verify_password (jwt_encode key) now db form = Inr issued"
    from 1 [of "jwt_encode key" issued, THEN mp, OF a] obtain u :: user where
      "access_token issued =
         jwt_encode key \<lparr>claim_sub = Some (username u), claim_exp = Some (now + minutes 30)\<rparr>"
      by auto
    then show "(\<exists>p. jwt_decode key t (access_token issued) = Inr p) \<longleftrightarrow> t < now + minutes 30"
      by (simp add: jwt_decode_def jwt_encode_def)
  qed
  have 6: "d \<noteq> 0 \<longrightarrow>
        ((\<exists>p. jwt_decode key t (create_access_token (jwt_encode key) now data (Some d)) = Inr p)
           \<longleftrightarrow> t < now + d)"
    using jwt_decode_window [where key = key and t = t and data = data and e = "now + d"]
    by (simp add: create_access_token_def)
  have 7: "(\<exists>p. jwt_decode key t (create_access_token (jwt_encode key) now data None) = Inr p)
         \<longleftrightarrow> t < now + minutes 15"
    using jwt_decode_window [where key = key and t = t and data = data and e = "now + minutes 15"]
    by (simp add: create_access_token_def)
  show ?thesis
    by (intro conjI) (rule 1, rule 2, rule 3, rule 4, rule 5, rule 6, rule 7)
qed

text \<open>
  The example user logs in at time 1000 on both paths, and the expiry can be read in both
  tokens; the token of the route \<open>/token\<close> is valid one microsecond before its expiry
  and not at its expiry, and so are a token of 30 minutes and a token without ttl made by
  \<open>create_access_token\<close>.
\<close>

theorem token_expiry_witness:
  "login_for_access_token plain_verify (jwt_encode (str ''k'')) 1000 user_store admin_form =
     Inr \<lparr>access_token =
            Signed (str ''k'')
              \<lparr>claim_sub = Some (str ''admin''), claim_exp = Some (1000 + minutes 30)\<rparr>,
          token_type = ''bearer''\<rparr>
   \<and> (\<exists>p. jwt_decode (str ''k'') (1000 + minutes 30 - 1)
              (Signed (str ''k'')
                 \<lparr>claim_sub = Some (str ''admin''), claim_exp = Some (1000 + minutes 30)\<rparr>) =
            Inr p)
   \<and> \<not> (\<exists>p. jwt_decode (str ''k'') (1000 + minutes 30)
              (Signed (str ''k'')
                 \<lparr>claim_sub = Some (str ''admin''), claim_exp = Some (1000 + minutes 30)\<rparr>) =
            Inr p)
   \<and> login_submit plain_verify stamp_encode 1000 user_store admin_form =
       Redirect ''/dashboard''
         (str ''Bearer '' @
          stamp_encode \<lparr>claim_sub = Some (str ''admin''), claim_exp = Some (1000 + minutes 15)\<rparr>)
   \<and> stamp_encode \<lparr>claim_sub = Some (str ''admin''), claim_exp = Some (1000 + minutes 15)\<rparr> =
       str ''admin.'' @ [900001000]
   \<and> minutes 30 \<noteq> 0
   \<and> (\<exists>p. jwt_decode (str ''k'') (1000 + minutes 30 - 1)
              (create_access_token (jwt_encode (str ''k'')) 1000 admin_claims (Some (minutes 30))) =
            Inr p)
   \<and> \<not> (\<exists>p. jwt_decode (str ''k'') (1000 + minutes 30)
              (create_access_token (jwt_encode (str ''k'')) 1000 admin_claims (Some (minutes 30))) =
            Inr p)
   \<and> (\<exists>p. jwt_decode (str ''k'') (1000 + minutes 15 - 1)
              (create_access_token (jwt_encode (str ''k'')) 1000 admin_claims None) = Inr p)
   \<and> \<not> (\<exists>p. jwt_decode (str ''k'') (1000 + minutes 15)
              (create_access_token (jwt_encode (str ''k'')) 1000 admin_claims None) = Inr p)"
proof -
  let ?k = "str ''k''"
  let ?tok = "Signed (str ''k'')
      \<lparr>claim_sub = Some (str ''admin''), claim_exp = Some (1000 + minutes 30)\<rparr>"
  have u: "get_user_by_username user_store (form_username admin_form) = Some admin_user"
    "username admin_user = str ''admin''"
    by (simp_all add: get_user_by_username_def user_store_def admin_user_def admin_form_def
        str_def)
  have v: "plain_verify (form_password admin_form) (hashed_password admin_user)"
    by (simp add: plain_verify_def admin_form_def admin_user_def)
  obtain resp where r: "login_for_access_token plain_verify (jwt_encode ?k) 1000 user_store
      admin_form = Inr resp" and ty: "token_type resp = ''bearer''"
    using u v by (simp add: login_for_access_token_def)
  from r u token_expiry [where verify_password = plain_verify and encode = "jwt_encode ?k"
      and now = 1000 and db = user_store and form = admin_form and resp = resp,
      THEN conjunct1]
  have at: "access_token resp = ?tok"
    by (simp add: jwt_encode_def)
  with ty have "resp = \<lparr>access_token = ?tok, token_type = ''bearer''\<rparr>"
    by (cases resp) simp
  with r have 1: "login_for_access_token plain_verify (jwt_encode ?k) 1000 user_store
      admin_form = Inr \<lparr>access_token = ?tok, token_type = ''bearer''\<rparr>"
    by simp
  from r at token_expiry [where verify_password = plain_verify and key = ?k
      and now = 1000 and db = user_store and form = admin_form and issued = resp
      and t = "1000 + minutes 30 - 1",
      THEN conjunct2, THEN conjunct2, THEN conjunct2, THEN conjunct2, THEN conjunct1]
  have v1: "\<exists>p. jwt_decode ?k (1000 + minutes 30 - 1) ?tok = Inr p"
    by simp
  from r at token_expiry [where verify_password = plain_verify and key = ?k
      and now = 1000 and db = user_store and form = admin_form and issued = resp
      and t = "1000 + minutes 30",
      THEN conjunct2, THEN conjunct2, THEN conjunct2, THEN conjunct2, THEN conjunct1]
  have v2: "\<not> (\<exists>p. jwt_decode ?k (1000 + minutes 30) ?tok = Inr p)"
    by simp
  obtain cookie where s: "login_submit plain_verify stamp_encode 1000 user_store admin_form =
      Redirect ''/dashboard'' cookie"
    using u v by (simp add: login_submit_def)
  from s u token_expiry [where verify_password = plain_verify and encode' = stamp_encode
      and now = 1000 and db = user_store and form = admin_form and url = "''/dashboard''"
      and cookie = cookie, THEN conjunct2, THEN conjunct1]
  have "cookie = str ''Bearer '' @
          stamp_encode \<lparr>claim_sub = Some (str ''admin''), claim_exp = Some (1000 + minutes 15)\<rparr>"
    by simp
  with s have 2: "login_submit plain_verify stamp_encode 1000 user_store admin_form =
       Redirect ''/dashboard''
         (str ''Bearer '' @
          stamp_encode \<lparr>claim_sub = Some (str ''admin''), claim_exp = Some (1000 + minutes 15)\<rparr>)"
    by simp
  have v3: "stamp_encode \<lparr>claim_sub = Some (str ''admin''), claim_exp = Some (1000 + minutes 15)\<rparr> =
       str ''admin.'' @ [900001000]"
    by (simp add: stamp_encode_def minutes_def str_def)
  have 3: "minutes 30 \<noteq> 0"
    by (simp add: minutes_def)
  from 3 token_expiry [where key = ?k and now = 1000 and data = admin_claims and d = "minutes 30"
      and t = "1000 + minutes 30 - 1",
      THEN conjunct2, THEN conjunct2, THEN conjunct2, THEN conjunct2, THEN conjunct2,
      THEN conjunct1]
  have 4: "\<exists>p. jwt_decode ?k (1000 + minutes 30 - 1)
              (create_access_token (jwt_encode ?k) 1000 admin_claims (Some (minutes 30))) = Inr p"
    by simp
  from 3 token_expiry [where key = ?k and now = 1000 and data = admin_claims and d = "minutes 30"
      and t = "1000 + minutes 30",
      THEN conjunct2, THEN conjunct2, THEN conjunct2, THEN conjunct2, THEN conjunct2,
      THEN conjunct1]
  have 5: "\<not> (\<exists>p. jwt_decode ?k (1000 + minutes 30)
              (create_access_token (jwt_encode ?k) 1000 admin_claims (Some (minutes 30))) = Inr p)"
    by simp
  from token_expiry [where key = ?k and now = 1000 and data = admin_claims
      and t = "1000 + minutes 15 - 1",
      THEN conjunct2, THEN conjunct2, THEN conjunct2, THEN conjunct2, THEN conjunct2,
      THEN conjunct2]
  have 6: "\<exists>p. jwt_decode ?k (1000 + minutes 15 - 1)
              (create_access_token (jwt_encode ?k) 1000 admin_claims None) = Inr p"
    by simp
  from token_expiry [where key = ?k and now = 1000 and data = admin_claims
      and t = "1000 + minutes 15",
      THEN conjunct2, THEN conjunct2, THEN conjunct2, THEN conjunct2, THEN conjunct2,
      THEN conjunct2]
  have 7: "\<not> (\<exists>p. jwt_decode ?k (1000 + minutes 15)
              (create_access_token (jwt_encode ?k) 1000 admin_claims None) = Inr p)"
    by simp
  show ?thesis
    by (intro conjI) (rule 1, rule v1, rule v2, rule 2, rule v3, rule 3, rule 4, rule 5, rule 6,
        rule 7)
qed

subsection \<open>Search\<close>

lemma like_match_percent: "like_match [percent] s"
  by (induction s) simp_all

lemma like_match_underscore: "like_match [underscore] s \<longleftrightarrow> (\<exists>c. s = [c])"
  by (cases s) (auto simp: percent_def underscore_def)

lemma like_match_wildcard_free: "wildcard_free p \<Longrightarrow> like_match p s \<longleftrightarrow> s = p"
proof (induction p s rule: like_match.induct)
  case (1 s)
  then show ?case by auto
next
  case (2 p ps)
  then show ?case by (auto simp: wildcard_free_def)
next
  case (3 p ps c s)
  then show ?case by (auto simp: wildcard_free_def)
qed

lemma like_match_append:
  "like_match (p1 @ p2) s \<longleftrightarrow> (\<exists>s1 s2. s = s1 @ s2 \<and> like_match p1 s1 \<and> like_match p2 s2)"
proof (induction p1 s rule: like_match.induct)
  case (1 s)
  then show ?case by simp
next
  case (2 p ps)
  then show ?case by simp
next
  case (3 p ps c s)
  show ?case
  proof (cases "p = percent")
    case True
    have "like_match ((p # ps) @ p2) (c # s) \<longleftrightarrow>
        like_match (ps @ p2) (c # s) \<or> like_match ((p # ps) @ p2) s"
      using True by simp
    also have "\<dots> \<longleftrightarrow> (\<exists>s1 s2. c # s = s1 @ s2 \<and> like_match ps s1 \<and> like_match p2 s2)
        \<or> (\<exists>s1 s2. s = s1 @ s2 \<and> like_match (p # ps) s1 \<and> like_match p2 s2)"
      using 3(1) [OF True] 3(2) [OF True] by simp
    also have "\<dots> \<longleftrightarrow> (\<exists>s1 s2. c # s = s1 @ s2 \<and> like_match (p # ps) s1 \<and> like_match p2 s2)"
      (is "?L \<longleftrightarrow> ?R")
    proof
      assume ?L
      then show ?R
      proof
        assume "\<exists>s1 s2. c # s = s1 @ s2 \<and> like_match ps s1 \<and> like_match p2 s2"
        then obtain s1 s2 where a: "c # s = s1 @ s2" "like_match ps s1" "like_match p2 s2"
          by blast
        have "like_match (p # ps) s1"
          using a(2) True by (cases s1) simp_all
        with a show ?R by blast
      next
        assume "\<exists>s1 s2. s = s1 @ s2 \<and> like_match (p # ps) s1 \<and> like_match p2 s2"
        then obtain s1 s2 where a: "s = s1 @ s2" "like_match (p # ps) s1" "like_match p2 s2"
          by blast
        have "like_match (p # ps) (c # s1)"
          using a(2) True by simp
        moreover have "c # s = (c # s1) @ s2"
          using a(1) by simp
        ultimately show ?R using a(3) by blast
      qed
    next
      assume ?R
      then obtain s1 s2 where a: "c # s = s1 @ s2" "like_match (p # ps) s1" "like_match p2 s2"
        by blast
      show ?L
      proof (cases s1)
        case Nil
        with a True show ?thesis by auto
      next
        case (Cons c' s1')
        with a True have "c' = c" "s = s1' @ s2"
          and "like_match ps (c # s1') \<or> like_match (p # ps) s1'"
          by auto
        with a Cons show ?thesis by auto
      qed
    qed
    finally show ?thesis .
  next
    case False
    have "like_match ((p # ps) @ p2) (c # s) \<longleftrightarrow>
        (p = underscore \<or> p = c) \<and> like_match (ps @ p2) s"
      using False by simp
    also have "\<dots> \<longleftrightarrow> (p = underscore \<or> p = c) \<and>
        (\<exists>s1 s2. s = s1 @ s2 \<and> like_match ps s1 \<and> like_match p2 s2)"
      using 3(3) [OF False] by simp
    also have "\<dots> \<longleftrightarrow> (\<exists>s1 s2. c # s = s1 @ s2 \<and> like_match (p # ps) s1 \<and> like_match p2 s2)"
      (is "?L \<longleftrightarrow> ?R")
    proof
      assume ?L
      then obtain s1 s2 where a: "p = underscore \<or> p = c" "s = s1 @ s2" "like_match ps s1"
        "like_match p2 s2"
        by blast
      then have "like_match (p # ps) (c # s1)" "c # s = (c # s1) @ s2"
        using False by simp_all
      with a(4) show ?R by blast
    next
      assume ?R
      then obtain s1 s2 where a: "c # s = s1 @ s2" "like_match (p # ps) s1" "like_match p2 s2"
        by blast
      from a(2) False obtain s1' where "s1 = c # s1'"
        using a(1) by (cases s1) auto
      with a False show ?L by auto
    qed
    finally show ?thesis .
  qed
qed

lemma lower_append: "lower (a @ b) = lower a @ lower b"
  by (simp add: lower_def)

lemma lower_Cons: "lower (c # s) = lower_char c # lower s" "lower [] = []"
  by (simp_all add: lower_def)

lemma lower_wild: "lower_char percent = percent" "lower_char underscore = underscore"
  by (simp_all add: lower_char_def percent_def underscore_def)

lemma wildcard_free_lower: "wildcard_free q \<Longrightarrow> wildcard_free (lower q)"
  by (auto simp: wildcard_free_def lower_def lower_char_def percent_def underscore_def)

lemma like_match_contains:
  "like_match ([percent] @ p @ [percent]) s \<longleftrightarrow>
     (\<exists>u m v. s = u @ m @ v \<and> like_match p m)"
proof -
  have "like_match ([percent] @ p @ [percent]) s \<longleftrightarrow>
      (\<exists>u r. s = u @ r \<and> like_match (p @ [percent]) r)"
    using like_match_append [of "[percent]" "p @ [percent]" s] like_match_percent by simp
  also have "\<dots> \<longleftrightarrow> (\<exists>u r. s = u @ r \<and> (\<exists>m v. r = m @ v \<and> like_match p m))"
    using like_match_append [of p "[percent]"] like_match_percent by simp
  also have "\<dots> \<longleftrightarrow> (\<exists>u m v. s = u @ m @ v \<and> like_match p m)"
    by blast
  finally show ?thesis .
qed

lemma search_details_like:
  "search_details db q =
     filter (\<lambda>d. like_match ([percent] @ lower q @ [percent]) (lower (detail d)))
       (event_details db)"
  by (simp add: search_details_def ilike_def lower_append lower_Cons lower_wild)

lemma search_abz: "search_details search_store (str ''a%z'') = [row_abz]"
  by (simp add: search_details_def ilike_def lower_def lower_char_def str_def search_store_def
      row_abz_def row_mixed_def row_xy_def percent_def underscore_def)

lemma search_abc: "search_details search_store (str ''abc'') = [row_mixed]"
  by (simp add: search_details_def ilike_def lower_def lower_char_def str_def search_store_def
      row_abz_def row_mixed_def row_xy_def percent_def underscore_def)

lemma search_x_z: "search_details search_store (str ''x_z'') = [row_mixed]"
  by (simp add: search_details_def ilike_def lower_def lower_char_def str_def search_store_def
      row_abz_def row_mixed_def row_xy_def percent_def underscore_def)

text \<open>
  C7, as the claim states it, fails twice. The query \<open>a%z\<close> has three characters and
  finds the detail \<open>abz\<close>, which does not contain it. And the query of the three
  characters e with acute accent (U+00E9), \<open>c\<close>, \<open>o\<close> has no wildcard and does not
  find the detail above, which starts with these three letters, the first as a capital.
\<close>

theorem search_details_substring_counterexample:
  "3 \<le> length (str ''a%z'')
   \<and> search_details search_store (str ''a%z'') = [row_abz]
   \<and> \<not> (\<exists>u v. lower (detail row_abz) = u @ lower (str ''a%z'') @ v)
   \<and> 3 \<le> length [233, 99, 111 :: codepoint]
   \<and> percent \<notin> set [233, 99, 111]
   \<and> underscore \<notin> set [233, 99, 111]
   \<and> event_details accent_store = [row_ecole]
   \<and> map latin1_lower (detail row_ecole) = [] @ map latin1_lower [233, 99, 111] @ [108, 101]
   \<and> search_details accent_store [233, 99, 111] = []"
proof -
  have a: "\<not> (\<exists>u v. lower (detail row_abz) = u @ lower (str ''a%z'') @ v)"
  proof
    assume "\<exists>u v. lower (detail row_abz) = u @ lower (str ''a%z'') @ v"
    then obtain u v where e: "lower (detail row_abz) = u @ lower (str ''a%z'') @ v"
      by blast
    then have "length (lower (detail row_abz)) = length u + length (lower (str ''a%z'')) + length v"
      by simp
    then have "u = []" "v = []"
      by (simp_all add: lower_def row_abz_def str_def)
    with e show False
      by (simp add: lower_def lower_char_def row_abz_def str_def)
  qed
  have b: "3 \<le> length (str ''a%z'')" "3 \<le> length [233, 99, 111 :: codepoint]"
    "percent \<notin> set [233, 99, 111]" "underscore \<notin> set [233, 99, 111]"
    by (simp_all add: str_def percent_def underscore_def)
  have c: "event_details accent_store = [row_ecole]"
    "map latin1_lower (detail row_ecole) = [] @ map latin1_lower [233, 99, 111] @ [108, 101]"
    by (simp_all add: accent_store_def row_ecole_def latin1_lower_def)
  have d: "search_details accent_store [233, 99, 111] = []"
    by (simp add: search_details_def ilike_def lower_def lower_char_def accent_store_def
        row_ecole_def percent_def underscore_def)
  show ?thesis
    by (intro conjI)
      (rule b(1), rule search_abz, rule a, rule b(2), rule b(3), rule b(4), rule c(1), rule c(2),
        rule d)
qed

text \<open>
  C7, amended. For every query without \<open>%\<close> and \<open>_\<close>, \<open>search_details\<close> returns
  exactly the details, of all events and months and in the order of the table, whose text
  contains the query when in both the letters \<open>A\<close> to \<open>Z\<close> of ASCII are replaced by
  their small letters and every other character is left as it is. The route refuses a
  request without query or with a query of fewer than three characters, without calling
  \<open>search_details\<close>, and answers every other request with its result.
\<close>

theorem search_details_substring:
  "(percent \<notin> set q \<and> underscore \<notin> set q \<longrightarrow>
      search_details db q =
        filter (\<lambda>d. \<exists>u v. lower (detail d) = u @ lower q @ v) (event_details db))
   \<and> search_events db None = Inl RequestValidationError
   \<and> (length q < 3 \<longrightarrow> search_events db (Some q) = Inl RequestValidationError)
   \<and> (3 \<le> length q \<longrightarrow> search_events db (Some q) = Inr (search_details db q))
   \<and> lower s = map (\<lambda>c. if 65 \<le> c \<and> c \<le> 90 then c + 32 else c) s"
proof -
  have 3: "lower s = map (\<lambda>c. if 65 \<le> c \<and> c \<le> 90 then c + 32 else c) s"
    by (simp add: lower_def lower_char_def [abs_def])
  have 1: "percent \<notin> set q \<and> underscore \<notin> set q \<longrightarrow>
      search_details db q =
        filter (\<lambda>d. \<exists>u v. lower (detail d) = u @ lower q @ v) (event_details db)"
  proof
    assume "percent \<notin> set q \<and> underscore \<notin> set q"
    then have p: "wildcard_free (lower q)"
      using wildcard_free_lower [of q] by (simp add: wildcard_free_def)
    have "\<And>s. like_match ([percent] @ lower q @ [percent]) s \<longleftrightarrow>
        (\<exists>u v. s = u @ lower q @ v)"
      unfolding like_match_contains using like_match_wildcard_free [OF p] by auto
    then show "search_details db q =
        filter (\<lambda>d. \<exists>u v. lower (detail d) = u @ lower q @ v) (event_details db)"
      unfolding search_details_like by simp
  qed
  have 2: "search_events db None = Inl RequestValidationError"
    "length q < 3 \<longrightarrow> search_events db (Some q) = Inl RequestValidationError"
    "3 \<le> length q \<longrightarrow> search_events db (Some q) = Inr (search_details db q)"
    by (simp_all add: search_events_def)
  show ?thesis
    by (intro conjI) (rule 1, rule 2(1), rule 2(2), rule 2(3), rule 3)
qed

text \<open>
  On the example details: \<open>abc\<close> finds \<open>XYZabcDEF\<close> only, and the route refuses
  \<open>xy\<close>.
\<close>

theorem search_details_substring_witness:
  "percent \<notin> set (str ''abc'') \<and> underscore \<notin> set (str ''abc'')
   \<and> search_details search_store (str ''abc'') = [row_mixed]
   \<and> filter (\<lambda>d. \<exists>u v. lower (detail d) = u @ lower (str ''abc'') @ v)
         (event_details search_store) = [row_mixed]
   \<and> lower (detail row_mixed) = str ''xyzabcdef''
   \<and> length (str ''xy'') < 3
   \<and> search_events search_store (Some (str ''xy'')) = Inl RequestValidationError
   \<and> 3 \<le> length (str ''abc'')
   \<and> search_events search_store (Some (str ''abc'')) = Inr [row_mixed]"
proof -
  have h: "percent \<notin> set (str ''abc'')" "underscore \<notin> set (str ''abc'')"
    "length (str ''xy'') < 3" "3 \<le> length (str ''abc'')"
    by (simp_all add: str_def percent_def underscore_def)
  from search_details_substring [where q = "str ''abc''" and db = search_store,
      THEN conjunct1, THEN mp, OF conjI [OF h(1) h(2)]]
  have 1: "filter (\<lambda>d. \<exists>u v. lower (detail d) = u @ lower (str ''abc'') @ v)
         (event_details search_store) = [row_mixed]"
    by (simp add: search_abc)
  from search_details_substring [where q = "str ''xy''" and db = search_store,
      THEN conjunct2, THEN conjunct2, THEN conjunct1, THEN mp, OF h(3)]
  have 2: "search_events search_store (Some (str ''xy'')) = Inl RequestValidationError" .
  from search_details_substring [where q = "str ''abc''" and db = search_store,
      THEN conjunct2, THEN conjunct2, THEN conjunct2, THEN conjunct1, THEN mp, OF h(4)]
  have 3: "search_events search_store (Some (str ''abc'')) = Inr [row_mixed]"
    by (simp add: search_abc)
  from search_details_substring [where s = "detail row_mixed",
      THEN conjunct2, THEN conjunct2, THEN conjunct2, THEN conjunct2]
  have 4: "lower (detail row_mixed) = str ''xyzabcdef''"
    by (simp add: row_mixed_def str_def)
  show ?thesis
    by (intro conjI)
      (rule h(1), rule h(2), rule search_abc, rule 1, rule 4, rule h(3), rule 2, rule h(4),
        rule 3)
qed

text \<open>
  C10. \<open>search_details\<close> puts the query between two \<open>%\<close> as it is, so the match
  is that of the pattern \<open>%query%\<close>, in which a \<open>%\<close> or \<open>_\<close> of the query is a
  wildcard like the two around it: lowering leaves both characters alone; a detail is found
  by a query with a \<open>%\<close> exactly if its lowered text holds a match of the part before
  the \<open>%\<close> and, anywhere after it, a match of the part behind; by a query with a
  \<open>_\<close> exactly if the two matches are one character apart. So \<open>a%z\<close> finds every
  detail with an \<open>a\<close> anywhere before a \<open>z\<close>.
\<close>

theorem search_details_wildcards:
  "search_details db q =
     filter (\<lambda>d. like_match ([percent] @ lower q @ [percent]) (lower (detail d)))
       (event_details db)
   \<and> lower (q1 @ [percent] @ q2) = lower q1 @ [percent] @ lower q2
   \<and> lower (q1 @ [underscore] @ q2) = lower q1 @ [underscore] @ lower q2
   \<and> (d \<in> set (search_details db (q1 @ [percent] @ q2)) \<longleftrightarrow>
        d \<in> set (event_details db)
        \<and> (\<exists>u s1 v s2 w. lower (detail d) = u @ s1 @ v @ s2 @ w
              \<and> like_match (lower q1) s1 \<and> like_match (lower q2) s2))
   \<and> (d \<in> set (search_details db (q1 @ [underscore] @ q2)) \<longleftrightarrow>
        d \<in> set (event_details db)
        \<and> (\<exists>u s1 c s2 w. lower (detail d) = u @ s1 @ [c] @ s2 @ w
              \<and> like_match (lower q1) s1 \<and> like_match (lower q2) s2))
   \<and> (d \<in> set (search_details db (str ''a%z'')) \<longleftrightarrow>
        d \<in> set (event_details db)
        \<and> (\<exists>u v w. lower (detail d) = u @ str ''a'' @ v @ str ''z'' @ w))"
proof -
  have l: "lower (q1 @ [percent] @ q2) = lower q1 @ [percent] @ lower q2"
    "lower (q1 @ [underscore] @ q2) = lower q1 @ [underscore] @ lower q2"
    by (simp_all add: lower_append lower_Cons lower_wild)
  have mp: "\<And>a b s. like_match (a @ [percent] @ b) s \<longleftrightarrow>
      (\<exists>s1 v s2. s = s1 @ v @ s2 \<and> like_match a s1 \<and> like_match b s2)"
  proof -
    fix a b s
    have "like_match (a @ [percent] @ b) s \<longleftrightarrow>
        (\<exists>s1 r. s = s1 @ r \<and> like_match a s1 \<and> (\<exists>v s2. r = v @ s2 \<and> like_match b s2))"
      using like_match_append [of a "[percent] @ b" s] like_match_append [of "[percent]" b]
        like_match_percent
      by simp
    then show "like_match (a @ [percent] @ b) s \<longleftrightarrow>
      (\<exists>s1 v s2. s = s1 @ v @ s2 \<and> like_match a s1 \<and> like_match b s2)"
      by blast
  qed
  have mu: "\<And>a b s. like_match (a @ [underscore] @ b) s \<longleftrightarrow>
      (\<exists>s1 c s2. s = s1 @ [c] @ s2 \<and> like_match a s1 \<and> like_match b s2)"
  proof -
    fix a b s
    have "like_match (a @ [underscore] @ b) s \<longleftrightarrow>
        (\<exists>s1 r. s = s1 @ r \<and> like_match a s1
           \<and> (\<exists>x s2. r = x @ s2 \<and> (\<exists>c. x = [c]) \<and> like_match b s2))"
      using like_match_append [of a "[underscore] @ b" s] like_match_append [of "[underscore]" b]
        like_match_underscore
      by simp
    then show "like_match (a @ [underscore] @ b) s \<longleftrightarrow>
      (\<exists>s1 c s2. s = s1 @ [c] @ s2 \<and> like_match a s1 \<and> like_match b s2)"
      by blast
  qed
  have 4: "d \<in> set (search_details db (q1 @ [percent] @ q2)) \<longleftrightarrow>
        d \<in> set (event_details db)
        \<and> (\<exists>u s1 v s2 w. lower (detail d) = u @ s1 @ v @ s2 @ w
              \<and> like_match (lower q1) s1 \<and> like_match (lower q2) s2)"
  proof -
    have "like_match ([percent] @ lower (q1 @ [percent] @ q2) @ [percent]) (lower (detail d)) \<longleftrightarrow>
        (\<exists>u m w. lower (detail d) = u @ m @ w
           \<and> (\<exists>s1 v s2. m = s1 @ v @ s2 \<and> like_match (lower q1) s1 \<and> like_match (lower q2) s2))"
      unfolding like_match_contains l mp ..
    also have "\<dots> \<longleftrightarrow> (\<exists>u s1 v s2 w. lower (detail d) = u @ s1 @ v @ s2 @ w
              \<and> like_match (lower q1) s1 \<and> like_match (lower q2) s2)"
      by (metis append.assoc)
    finally show ?thesis
      unfolding search_details_like by simp
  qed
  have 5: "d \<in> set (search_details db (q1 @ [underscore] @ q2)) \<longleftrightarrow>
        d \<in> set (event_details db)
        \<and> (\<exists>u s1 c s2 w. lower (detail d) = u @ s1 @ [c] @ s2 @ w
              \<and> like_match (lower q1) s1 \<and> like_match (lower q2) s2)"
  proof -
    have "like_match ([percent] @ lower (q1 @ [underscore] @ q2) @ [percent]) (lower (detail d)) \<longleftrightarrow>
        (\<exists>u m w. lower (detail d) = u @ m @ w
           \<and> (\<exists>s1 c s2. m = s1 @ [c] @ s2 \<and> like_match (lower q1) s1 \<and> like_match (lower q2) s2))"
      unfolding like_match_contains l mu ..
    also have "\<dots> \<longleftrightarrow> (\<exists>u s1 c s2 w. lower (detail d) = u @ s1 @ [c] @ s2 @ w
              \<and> like_match (lower q1) s1 \<and> like_match (lower q2) s2)"
      by (metis append.assoc)
    finally show ?thesis
      unfolding search_details_like by simp
  qed
  have 6: "d \<in> set (search_details db (str ''a%z'')) \<longleftrightarrow>
        d \<in> set (event_details db)
        \<and> (\<exists>u v w. lower (detail d) = u @ str ''a'' @ v @ str ''z'' @ w)"
  proof -
    have q: "lower (str ''a%z'') = str ''a'' @ [percent] @ str ''z''"
      by (simp add: lower_def lower_char_def str_def percent_def)
    have pa: "wildcard_free (str ''a'')" "wildcard_free (str ''z'')"
      by (simp_all add: wildcard_free_def str_def percent_def underscore_def)
    have "like_match ([percent] @ lower (str ''a%z'') @ [percent]) (lower (detail d)) \<longleftrightarrow>
        (\<exists>u m w. lower (detail d) = u @ m @ w
           \<and> (\<exists>s1 v s2. m = s1 @ v @ s2 \<and> s1 = str ''a'' \<and> s2 = str ''z''))"
      unfolding like_match_contains q mp like_match_wildcard_free [OF pa(1)] like_match_wildcard_free [OF pa(2)] ..
    also have "\<dots> \<longleftrightarrow> (\<exists>u v w. lower (detail d) = u @ str ''a'' @ v @ str ''z'' @ w)"
      by (metis append.assoc)
    finally show ?thesis
      unfolding search_details_like by simp
  qed
  from search_details_like [of db q] l 4 5 6 show ?thesis by blast
qed

text \<open>
  On the example details: \<open>a%z\<close> finds \<open>abz\<close> and not \<open>xy\<close>, and \<open>x_z\<close>
  finds \<open>XYZabcDEF\<close>.
\<close>

theorem search_details_wildcards_witness:
  "row_abz \<in> set (search_details search_store (str ''a%z''))
   \<and> (\<exists>u v w. lower (detail row_abz) = u @ str ''a'' @ v @ str ''z'' @ w)
   \<and> row_xy \<notin> set (search_details search_store (str ''a%z''))
   \<and> \<not> (\<exists>u v w. lower (detail row_xy) = u @ str ''a'' @ v @ str ''z'' @ w)
   \<and> str ''x_z'' = str ''x'' @ [underscore] @ str ''z''
   \<and> row_mixed \<in> set (search_details search_store (str ''x'' @ [underscore] @ str ''z''))
   \<and> (\<exists>u s1 c s2 w. lower (detail row_mixed) = u @ s1 @ [c] @ s2 @ w
         \<and> like_match (lower (str ''x'')) s1 \<and> like_match (lower (str ''z'')) s2)"
proof -
  have m: "row_abz \<in> set (event_details search_store)" "row_xy \<in> set (event_details search_store)"
    "row_mixed \<in> set (event_details search_store)"
    by (simp_all add: search_store_def)
  have d: "row_xy \<noteq> row_abz"
    by (simp add: row_xy_def row_abz_def)
  have x: "str ''x_z'' = str ''x'' @ [underscore] @ str ''z''"
    by (simp add: str_def underscore_def)
  have a: "row_abz \<in> set (search_details search_store (str ''a%z''))"
    "row_xy \<notin> set (search_details search_store (str ''a%z''))"
    using d by (simp_all add: search_abz)
  from a m
    search_details_wildcards [where db = search_store and d = row_abz,
      THEN conjunct2, THEN conjunct2, THEN conjunct2, THEN conjunct2, THEN conjunct2]
    search_details_wildcards [where db = search_store and d = row_xy,
      THEN conjunct2, THEN conjunct2, THEN conjunct2, THEN conjunct2, THEN conjunct2]
  have 1: "row_abz \<in> set (search_details search_store (str ''a%z''))
   \<and> (\<exists>u v w. lower (detail row_abz) = u @ str ''a'' @ v @ str ''z'' @ w)
   \<and> row_xy \<notin> set (search_details search_store (str ''a%z''))
   \<and> \<not> (\<exists>u v w. lower (detail row_xy) = u @ str ''a'' @ v @ str ''z'' @ w)"
    by blast
  have b: "row_mixed \<in> set (search_details search_store (str ''x'' @ [underscore] @ str ''z''))"
    using search_x_z x by simp
  from b m
    search_details_wildcards [where db = search_store and d = row_mixed and ?q1.0 = "str ''x''"
      and ?q2.0 = "str ''z''",
      THEN conjunct2, THEN conjunct2, THEN conjunct2, THEN conjunct2, THEN conjunct1]
  have 2: "row_mixed \<in> set (search_details search_store (str ''x'' @ [underscore] @ str ''z''))
   \<and> (\<exists>u s1 c s2 w. lower (detail row_mixed) = u @ s1 @ [c] @ s2 @ w
         \<and> like_match (lower (str ''x'')) s1 \<and> like_match (lower (str ''z'')) s2)"
    by blast
  from 1 2 x show ?thesis by blast
qed

subsection \<open>Creating a month with its events\<close>

lemma fold_max_ge: "a \<le> fold max ids (a::int)"
proof (induction ids arbitrary: a)
  case Nil
  show ?case by simp
next
  case (Cons x ids)
  have "a \<le> max x a" by simp
  also have "\<dots> \<le> fold max ids (max x a)" by (rule Cons.IH)
  finally show ?case by simp
qed

lemma fold_max_mem: "x \<in> set ids \<Longrightarrow> x \<le> fold max ids (a::int)"
proof (induction ids arbitrary: a)
  case Nil
  then show ?case by simp
next
  case (Cons y ids)
  show ?case
  proof (cases "x = y")
    case True
    have "x \<le> max y a" using True by simp
    also have "\<dots> \<le> fold max ids (max y a)" by (rule fold_max_ge)
    finally show ?thesis by simp
  next
    case False
    with Cons.prems have "x \<in> set ids" by simp
    then show ?thesis using Cons.IH by simp
  qed
qed

lemma next_id_fresh: "next_id ids \<notin> set ids"
  using fold_max_mem [of "next_id ids" ids 0] by (auto simp: next_id_def)

lemma insert_details_rows:
  "\<exists>ds. insert_details eid ts rows = rows @ ds
     \<and> map (\<lambda>d. (detail_event_id d, detail d)) ds = map (Pair eid) ts"
proof (induction ts arbitrary: rows)
  case Nil
  show ?case by simp
next
  case (Cons t ts)
  from Cons.IH [of "rows @ [new_detail rows eid t]"]
  obtain ds where "insert_details eid ts (rows @ [new_detail rows eid t]) =
      (rows @ [new_detail rows eid t]) @ ds"
    and "map (\<lambda>d. (detail_event_id d, detail d)) ds = map (Pair eid) ts"
    by blast
  then have "insert_details eid (t # ts) rows = rows @ (new_detail rows eid t # ds)
     \<and> map (\<lambda>d. (detail_event_id d, detail d)) (new_detail rows eid t # ds) = map (Pair eid) (t # ts)"
    by (simp add: new_detail_def)
  then show ?case by blast
qed

lemma create_events_returned:
  "create_events flt n mid evs db = Returned u db' \<Longrightarrow>
     months db' = months db \<and> users db' = users db \<and> tree_visible db db' mid evs"
proof (induction evs arbitrary: n db)
  case Nil
  then show ?case by (simp add: tree_visible_def)
next
  case (Cons ev rest)
  let ?e = "new_event db mid (ec_day ev)"
  let ?db1 = "db\<lparr>events := events db @ [?e]\<rparr>"
  let ?db2 = "?db1\<lparr>event_details := insert_details (event_id ?e) (ec_details ev) (event_details ?db1)\<rparr>"
  from Cons.prems have r: "create_events flt (n + 2) mid rest ?db2 = Returned u db'"
    by (simp add: Let_def split: if_splits)
  from Cons.IH [OF r] have f: "months db' = months db" "users db' = users db"
    and t: "tree_visible ?db2 db' mid rest"
    by simp_all
  from t obtain es ds where a: "events db' = events ?db2 @ es"
    "event_details db' = event_details ?db2 @ ds"
    "map day es = map ec_day rest"
    "\<forall>e \<in> set es. event_month_id e = mid"
    "distinct (map event_id es)"
    "\<forall>e \<in> set es. event_id e \<notin> event_id ` set (events ?db2)"
    "map (\<lambda>d. (detail_event_id d, detail d)) ds =
       concat (map (\<lambda>(e, ev). map (Pair (event_id e)) (ec_details ev)) (zip es rest))"
    unfolding tree_visible_def by blast
  obtain ds0 where b: "insert_details (event_id ?e) (ec_details ev) (event_details db) =
      event_details db @ ds0"
    "map (\<lambda>d. (detail_event_id d, detail d)) ds0 = map (Pair (event_id ?e)) (ec_details ev)"
    using insert_details_rows by blast
  have fresh: "event_id ?e \<notin> event_id ` set (events db)"
    using next_id_fresh [of "map event_id (events db)"] by (simp add: new_event_def)
  have 1: "events db' = events db @ (?e # es)"
    using a(1) by simp
  have 2: "event_details db' = event_details db @ (ds0 @ ds)"
    using a(2) b(1) by simp
  have 3: "map day (?e # es) = map ec_day (ev # rest)"
    using a(3) by (simp add: new_event_def)
  have 4: "\<forall>e \<in> set (?e # es). event_month_id e = mid"
    using a(4) by (simp add: new_event_def)
  have 5: "distinct (map event_id (?e # es))"
    using a(5) a(6) by auto
  have 6: "\<forall>e \<in> set (?e # es). event_id e \<notin> event_id ` set (events db)"
    using a(6) fresh by auto
  have 7: "map (\<lambda>d. (detail_event_id d, detail d)) (ds0 @ ds) =
       concat (map (\<lambda>(e, ev). map (Pair (event_id e)) (ec_details ev)) (zip (?e # es) (ev # rest)))"
    using a(7) b(2) by simp
  from 1 2 3 4 5 6 7 have "tree_visible db db' mid (ev # rest)"
    unfolding tree_visible_def by blast
  with f show ?case by simp
qed

lemma create_events_total:
  "(\<forall>k < 2 * length evs. \<not> flt (n + k)) \<Longrightarrow> \<exists>db'. create_events flt n mid evs db = Returned () db'"
proof (induction evs arbitrary: n db)
  case Nil
  show ?case by simp
next
  case (Cons ev rest)
  from Cons.prems have "\<not> flt n" "\<not> flt (n + 1)"
    using Cons.prems [rule_format, of 0] Cons.prems [rule_format, of 1] by simp_all
  moreover have "\<forall>k < 2 * length rest. \<not> flt (n + 2 + k)"
  proof (intro allI impI)
    fix k assume "k < 2 * length rest"
    then have "k + 2 < 2 * length (ev # rest)" by simp
    from Cons.prems [rule_format, OF this] show "\<not> flt (n + 2 + k)"
      by (simp add: add.commute add.left_commute)
  qed
  ultimately show ?case
    using Cons.IH [of "n + 2"] by (simp add: Let_def)
qed

lemma create_events_no_faults:
  "create_events no_faults n mid evs db = create_events no_faults m mid evs db"
proof (induction evs arbitrary: n m db)
  case Nil
  show ?case by simp
next
  case (Cons ev rest)
  show ?case
    using Cons.IH [of "n + 2" _ "m + 2"] by (simp add: no_faults_def Let_def)
qed

lemma create_events_fault:
  "\<lbrakk>\<forall>k < j. \<not> flt (n + k); flt (n + j); j < 2 * length evs\<rbrakk> \<Longrightarrow>
     create_events flt n mid evs db =
       Raised (store_of (create_events no_faults 0 mid (committed_prefix j evs) db))"
proof (induction j evs arbitrary: n db rule: committed_prefix.induct)
  case (1 evs)
  then show ?case by (cases evs) simp_all
next
  case (2 k)
  then show ?case by simp
next
  case (3 ev evs)
  then show ?case by (simp add: Let_def no_faults_def)
next
  case (4 k ev evs)
  have a: "\<not> flt n" "\<not> flt (n + 1)"
    using "4.prems"(1) [rule_format, of 0] "4.prems"(1) [rule_format, of 1] by simp_all
  have b: "\<forall>i < k. \<not> flt (n + 2 + i)"
  proof (intro allI impI)
    fix i assume "i < k"
    then have "i + 2 < Suc (Suc k)" by simp
    from "4.prems"(1) [rule_format, OF this] show "\<not> flt (n + 2 + i)"
      by (simp add: add.commute add.left_commute)
  qed
  have c: "flt (n + 2 + k)" "k < 2 * length evs"
    using "4.prems"(2,3) by (simp_all add: add.commute add.left_commute)
  let ?e = "new_event db mid (ec_day ev)"
  let ?db1 = "db\<lparr>events := events db @ [?e]\<rparr>"
  let ?db2 = "?db1\<lparr>event_details := insert_details (event_id ?e) (ec_details ev) (event_details ?db1)\<rparr>"
  have "create_events flt n mid (ev # evs) db = create_events flt (n + 2) mid evs ?db2"
    using a by (simp add: Let_def)
  also have "\<dots> = Raised (store_of (create_events no_faults 0 mid (committed_prefix k evs) ?db2))"
    by (rule "4.IH" [OF b c])
  also have "create_events no_faults 0 mid (committed_prefix k evs) ?db2 =
      create_events no_faults 0 mid (committed_prefix (Suc (Suc k)) (ev # evs)) db"
    using create_events_no_faults [of "Suc (Suc 0)" mid "committed_prefix k evs" ?db2 0]
    by (simp add: Let_def no_faults_def)
  finally show ?case .
qed

lemma create_events_raised:
  "create_events flt n mid evs db = Raised db' \<Longrightarrow> months db' = months db \<and> users db' = users db"
proof (induction evs arbitrary: n db)
  case Nil
  then show ?case by simp
next
  case (Cons ev rest)
  show ?case
  proof (cases "flt n \<or> flt (n + 1)")
    case True
    with Cons.prems show ?thesis by (auto simp: Let_def split: if_splits)
  next
    case False
    with Cons.prems Cons.IH show ?thesis by (fastforce simp: Let_def)
  qed
qed

lemma store_of_case:
  "store_of (case x of Raised d \<Rightarrow> Raised d | Returned u d \<Rightarrow> Returned r d) = store_of x"
  by (cases x) simp_all

text \<open>
  C2, as the claim states it, fails: when the commit of the second event's details fails,
  the month, both events and the details of the first event stay in the store.
\<close>

theorem create_month_partial_counterexample:
  "create_month (fail_at 4) empty_store calendar_tree = Raised partial_store
   \<and> months partial_store = [month_1]"
  by (simp add: create_month_def fail_at_def empty_store_def calendar_tree_def partial_store_def
      month_1_def new_month_def new_event_def new_detail_def next_id_def Let_def str_def)

text \<open>
  C2, amended. \<open>create_month\<close> commits the month's row, then for each event its row
  and then its details, each in a commit of its own. If no commit fails it returns, and
  whenever it returns the store holds, after the rows it held before, the month's row with
  the two names under a new key and all rows of the whole tree: one event for each given
  event, in order, under new keys and with the month's key, and the details of each under
  its event's key. If the first commit fails it raises and the store is as before. If a
  later commit fails, after \<open>k\<close> commits of the loop, it raises and the store is the
  one a call without failure leaves for the month with the part of the events committed so
  far: the rows committed before the failure stay, the month's row among them.
\<close>

theorem create_month_staged:
  "((\<forall>k \<le> 2 * length (mc_events m). \<not> flt k) \<longrightarrow>
      (\<exists>r db'. create_month flt db m = Returned r db'))
   \<and> (create_month flt db m = Returned r db' \<longrightarrow>
        month_bn r = mc_month_bn m \<and> month_en r = mc_month_en m
        \<and> month_id r \<notin> month_id ` set (months db)
        \<and> months db' = months db @ [r] \<and> users db' = users db
        \<and> (\<exists>es ds. events db' = events db @ es
              \<and> event_details db' = event_details db @ ds
              \<and> map day es = map ec_day (mc_events m)
              \<and> (\<forall>e \<in> set es. event_month_id e = month_id r)
              \<and> distinct (map event_id es)
              \<and> (\<forall>e \<in> set es. event_id e \<notin> event_id ` set (events db))
              \<and> map (\<lambda>d. (detail_event_id d, detail d)) ds =
                  concat (map (\<lambda>(e, ev). map (Pair (event_id e)) (ec_details ev))
                            (zip es (mc_events m)))))
   \<and> (flt 0 \<longrightarrow> create_month flt db m = Raised db)
   \<and> (flt (Suc k) \<and> (\<forall>j \<le> k. \<not> flt j) \<and> k < 2 * length (mc_events m) \<longrightarrow>
        create_month flt db m =
          Raised (store_of (create_month no_faults db
                              (m\<lparr>mc_events := committed_prefix k (mc_events m)\<rparr>))))
   \<and> (create_month flt db m = Raised db'' \<and> \<not> flt 0 \<longrightarrow>
        (\<exists>x. months db'' = months db @ [x]
           \<and> month_bn x = mc_month_bn m \<and> month_en x = mc_month_en m))"
proof -
  let ?r = "new_month db (mc_month_bn m) (mc_month_en m)"
  let ?db1 = "db\<lparr>months := months db @ [?r]\<rparr>"
  have 1: "(\<forall>k \<le> 2 * length (mc_events m). \<not> flt k) \<longrightarrow>
      (\<exists>r db'. create_month flt db m = Returned r db')"
  proof
    assume a: "\<forall>k \<le> 2 * length (mc_events m). \<not> flt k"
    then have "\<forall>k < 2 * length (mc_events m). \<not> flt (1 + k)" by simp
    from create_events_total [OF this] obtain d where
      "create_events flt 1 (month_id ?r) (mc_events m) ?db1 = Returned () d"
      by blast
    with a show "\<exists>r db'. create_month flt db m = Returned r db'"
      by (simp add: create_month_def Let_def)
  qed
  have 2: "create_month flt db m = Returned r db' \<longrightarrow>
        month_bn r = mc_month_bn m \<and> month_en r = mc_month_en m
        \<and> month_id r \<notin> month_id ` set (months db)
        \<and> months db' = months db @ [r] \<and> users db' = users db
        \<and> (\<exists>es ds. events db' = events db @ es
              \<and> event_details db' = event_details db @ ds
              \<and> map day es = map ec_day (mc_events m)
              \<and> (\<forall>e \<in> set es. event_month_id e = month_id r)
              \<and> distinct (map event_id es)
              \<and> (\<forall>e \<in> set es. event_id e \<notin> event_id ` set (events db))
              \<and> map (\<lambda>d. (detail_event_id d, detail d)) ds =
                  concat (map (\<lambda>(e, ev). map (Pair (event_id e)) (ec_details ev))
                            (zip es (mc_events m))))"
  proof
    assume "create_month flt db m = Returned r db'"
    then have r: "r = ?r"
      and c: "create_events flt 1 (month_id ?r) (mc_events m) ?db1 = Returned () db'"
      by (auto simp: create_month_def Let_def split: if_splits outcome.splits)
    from create_events_returned [OF c]
    have f: "months db' = months db @ [?r]" "users db' = users db"
      and t: "tree_visible ?db1 db' (month_id ?r) (mc_events m)"
      by simp_all
    have n: "month_id ?r \<notin> month_id ` set (months db)"
      using next_id_fresh [of "map month_id (months db)"] by (simp add: new_month_def)
    have b: "month_bn ?r = mc_month_bn m" "month_en ?r = mc_month_en m"
      by (simp_all add: new_month_def)
    from t have "\<exists>es ds. events db' = events db @ es
              \<and> event_details db' = event_details db @ ds
              \<and> map day es = map ec_day (mc_events m)
              \<and> (\<forall>e \<in> set es. event_month_id e = month_id ?r)
              \<and> distinct (map event_id es)
              \<and> (\<forall>e \<in> set es. event_id e \<notin> event_id ` set (events db))
              \<and> map (\<lambda>d. (detail_event_id d, detail d)) ds =
                  concat (map (\<lambda>(e, ev). map (Pair (event_id e)) (ec_details ev))
                            (zip es (mc_events m)))"
      unfolding tree_visible_def by simp
    with f n b show "month_bn r = mc_month_bn m \<and> month_en r = mc_month_en m
        \<and> month_id r \<notin> month_id ` set (months db)
        \<and> months db' = months db @ [r] \<and> users db' = users db
        \<and> (\<exists>es ds. events db' = events db @ es
              \<and> event_details db' = event_details db @ ds
              \<and> map day es = map ec_day (mc_events m)
              \<and> (\<forall>e \<in> set es. event_month_id e = month_id r)
              \<and> distinct (map event_id es)
              \<and> (\<forall>e \<in> set es. event_id e \<notin> event_id ` set (events db))
              \<and> map (\<lambda>d. (detail_event_id d, detail d)) ds =
                  concat (map (\<lambda>(e, ev). map (Pair (event_id e)) (ec_details ev))
                            (zip es (mc_events m))))"
      unfolding r by blast
  qed
  have 3: "flt 0 \<longrightarrow> create_month flt db m = Raised db"
    by (simp add: create_month_def)
  have 4: "flt (Suc k) \<and> (\<forall>j \<le> k. \<not> flt j) \<and> k < 2 * length (mc_events m) \<longrightarrow>
        create_month flt db m =
          Raised (store_of (create_month no_faults db
                              (m\<lparr>mc_events := committed_prefix k (mc_events m)\<rparr>)))"
  proof
    assume a: "flt (Suc k) \<and> (\<forall>j \<le> k. \<not> flt j) \<and> k < 2 * length (mc_events m)"
    then have z: "\<not> flt 0" by simp
    have b: "\<forall>i < k. \<not> flt (1 + i)" "flt (1 + k)" "k < 2 * length (mc_events m)"
      using a by simp_all
    from create_events_fault [OF b]
    have "create_events flt 1 (month_id ?r) (mc_events m) ?db1 =
        Raised (store_of (create_events no_faults 0 (month_id ?r)
                  (committed_prefix k (mc_events m)) ?db1))" .
    then have "create_month flt db m =
        Raised (store_of (create_events no_faults 0 (month_id ?r)
                  (committed_prefix k (mc_events m)) ?db1))"
      using z by (simp add: create_month_def Let_def)
    moreover have "store_of (create_month no_faults db
                              (m\<lparr>mc_events := committed_prefix k (mc_events m)\<rparr>)) =
        store_of (create_events no_faults 0 (month_id ?r)
                  (committed_prefix k (mc_events m)) ?db1)"
      using create_events_no_faults [of 1 "month_id ?r" "committed_prefix k (mc_events m)" ?db1 0]
      by (simp add: create_month_def Let_def no_faults_def store_of_case)
    ultimately show "create_month flt db m =
          Raised (store_of (create_month no_faults db
                              (m\<lparr>mc_events := committed_prefix k (mc_events m)\<rparr>)))"
      by simp
  qed
  have 5: "create_month flt db m = Raised db'' \<and> \<not> flt 0 \<longrightarrow>
        (\<exists>x. months db'' = months db @ [x]
           \<and> month_bn x = mc_month_bn m \<and> month_en x = mc_month_en m)"
  proof
    assume a: "create_month flt db m = Raised db'' \<and> \<not> flt 0"
    then have "create_events flt 1 (month_id ?r) (mc_events m) ?db1 = Raised db''"
      by (auto simp: create_month_def Let_def split: outcome.splits)
    from create_events_raised [OF this] have "months db'' = months db @ [?r]"
      by simp
    then show "\<exists>x. months db'' = months db @ [x]
           \<and> month_bn x = mc_month_bn m \<and> month_en x = mc_month_en m"
      by (auto simp: new_month_def)
  qed
  from 1 2 3 4 5 show ?thesis by blast
qed

text \<open>
  On the example month: the failure of the fifth commit leaves the month, both events and
  the first event's details; the failure of the first commit leaves nothing; without
  failure the whole tree is there.
\<close>

theorem create_month_staged_witness:
  "\<not> fail_at 4 0 \<and> \<not> fail_at 4 1 \<and> \<not> fail_at 4 2 \<and> \<not> fail_at 4 3 \<and> fail_at 4 (Suc 3)
   \<and> 3 < 2 * length (mc_events calendar_tree)
   \<and> create_month (fail_at 4) empty_store calendar_tree =
       Raised (store_of (create_month no_faults empty_store
                 (calendar_tree\<lparr>mc_events := committed_prefix 3 (mc_events calendar_tree)\<rparr>)))
   \<and> store_of (create_month no_faults empty_store
                 (calendar_tree\<lparr>mc_events := committed_prefix 3 (mc_events calendar_tree)\<rparr>)) =
       partial_store
   \<and> (\<exists>x. months partial_store = months empty_store @ [x]
         \<and> month_bn x = mc_month_bn calendar_tree \<and> month_en x = mc_month_en calendar_tree)
   \<and> fail_at 0 0
   \<and> create_month (fail_at 0) empty_store calendar_tree = Raised empty_store
   \<and> (\<exists>r db'. create_month no_faults empty_store calendar_tree = Returned r db')
   \<and> create_month no_faults empty_store calendar_tree = Returned month_1 whole_store
   \<and> months whole_store = months empty_store @ [month_1]
   \<and> (\<exists>es ds. events whole_store = events empty_store @ es
         \<and> event_details whole_store = event_details empty_store @ ds
         \<and> map day es = map ec_day (mc_events calendar_tree)
         \<and> (\<forall>e \<in> set es. event_month_id e = month_id month_1)
         \<and> distinct (map event_id es)
         \<and> (\<forall>e \<in> set es. event_id e \<notin> event_id ` set (events empty_store))
         \<and> map (\<lambda>d. (detail_event_id d, detail d)) ds =
             concat (map (\<lambda>(e, ev). map (Pair (event_id e)) (ec_details ev))
                       (zip es (mc_events calendar_tree))))"
proof -
  have f: "\<not> fail_at 4 0" "\<not> fail_at 4 1" "\<not> fail_at 4 2" "\<not> fail_at 4 3" "fail_at 4 (Suc 3)"
    "fail_at 0 0"
    by (simp_all add: fail_at_def)
  have g: "\<forall>j \<le> 3. \<not> fail_at 4 j"
    by (simp add: fail_at_def)
  have l: "3 < 2 * length (mc_events calendar_tree)"
    by (simp add: calendar_tree_def)
  have n: "\<forall>k \<le> 2 * length (mc_events calendar_tree). \<not> no_faults k"
    by (simp add: no_faults_def)
  have p: "store_of (create_month no_faults empty_store
                 (calendar_tree\<lparr>mc_events := committed_prefix 3 (mc_events calendar_tree)\<rparr>)) =
       partial_store"
    by (simp add: create_month_def no_faults_def empty_store_def calendar_tree_def
        partial_store_def month_1_def new_month_def new_event_def new_detail_def next_id_def
        Let_def str_def numeral_3_eq_3)
  have w: "create_month no_faults empty_store calendar_tree = Returned month_1 whole_store"
    by (simp add: create_month_def no_faults_def empty_store_def calendar_tree_def
        partial_store_def whole_store_def month_1_def new_month_def new_event_def new_detail_def
        next_id_def Let_def str_def)
  note t = create_month_staged [where db = empty_store and m = calendar_tree]
  from f g l t [where flt = "fail_at 4" and k = 3, THEN conjunct2, THEN conjunct2, THEN conjunct2,
      THEN conjunct1]
  have 1: "create_month (fail_at 4) empty_store calendar_tree =
       Raised (store_of (create_month no_faults empty_store
                 (calendar_tree\<lparr>mc_events := committed_prefix 3 (mc_events calendar_tree)\<rparr>)))"
    by blast
  from 1 p f t [where flt = "fail_at 4" and db'' = partial_store, THEN conjunct2, THEN conjunct2,
      THEN conjunct2, THEN conjunct2]
  have 2: "\<exists>x. months partial_store = months empty_store @ [x]
         \<and> month_bn x = mc_month_bn calendar_tree \<and> month_en x = mc_month_en calendar_tree"
    by simp
  from f t [where flt = "fail_at 0", THEN conjunct2, THEN conjunct2, THEN conjunct1]
  have 3: "create_month (fail_at 0) empty_store calendar_tree = Raised empty_store"
    by blast
  from n t [where flt = no_faults, THEN conjunct1]
  have 4: "\<exists>r db'. create_month no_faults empty_store calendar_tree = Returned r db'"
    by blast
  from w t [where flt = no_faults and r = month_1 and db' = whole_store, THEN conjunct2,
      THEN conjunct1]
  have 5: "months whole_store = months empty_store @ [month_1]
   \<and> (\<exists>es ds. events whole_store = events empty_store @ es
         \<and> event_details whole_store = event_details empty_store @ ds
         \<and> map day es = map ec_day (mc_events calendar_tree)
         \<and> (\<forall>e \<in> set es. event_month_id e = month_id month_1)
         \<and> distinct (map event_id es)
         \<and> (\<forall>e \<in> set es. event_id e \<notin> event_id ` set (events empty_store))
         \<and> map (\<lambda>d. (detail_event_id d, detail d)) ds =
             concat (map (\<lambda>(e, ev). map (Pair (event_id e)) (ec_details ev))
                       (zip es (mc_events calendar_tree))))"
    by blast
  from f l 1 p 2 3 4 w 5 show ?thesis by blast
qed

end
